theory Spec2Isabelle
  imports Main "HOL-Library.AList"
begin

section \<open>The call/usage-resolution engine of find\_usages\<close>

text \<open>
  A shallow embedding of
  \<^verbatim>\<open>create_dataset/find_usages/modified_handle_local_syntax_directed_typing_constraints.py\<close>
  (the constraint engine and its call-site output) and of the stateful section and the two
  module loops of \<^verbatim>\<open>create_dataset/find_usages/__main__.py\<close>.

  AST nodes are hashed by identity in the source; here every node carries a number that
  stands for that identity, and the tables keyed by nodes are keyed by these numbers.
\<close>

subsection \<open>Runtime terms\<close>

text \<open>A live class object: \<^verbatim>\<open>__module__\<close> and \<^verbatim>\<open>__name__\<close>.\<close>

datatype runtime_class = PyClass (cls_module: string) (cls_name: string)

text \<open>
  A live function object: its identity, \<^verbatim>\<open>__module__\<close>, \<^verbatim>\<open>__name__\<close>, what
  \<^verbatim>\<open>inspect.getsourcelines\<close> returns for it (the lines and the start line) and what
  \<^verbatim>\<open>inspect.signature\<close> prints for it. The engine reflects only on functions it has found in
  the bridge table from runtime functions to their definitions. A \<^verbatim>\<open>__module__\<close> that is
  \<^verbatim>\<open>None\<close> is the empty string here: the engine only tests the name for truth and prints
  it when it is true.
\<close>

datatype runtime_function = RuntimeFunction
  (fn_id: nat) (fn_module: string) (fn_name: string)
  (fn_source_lines: "string list") (fn_start_line: int) (fn_signature: string)

text \<open>\<^verbatim>\<open>Function\<close>: a function definition node of the AST, or a runtime function.\<close>

datatype function_term =
    FunctionDefinition nat
  | UnwrappedRuntimeFunction runtime_function

text \<open>
  \<^verbatim>\<open>RuntimeTerm\<close>. A bound method holds an instance, and the engine reads only
  \<^verbatim>\<open>instance.class_\<close> of it, which is the first argument of \<open>BoundMethod\<close>.
\<close>

datatype runtime_term =
    Module string
  | RuntimeClass runtime_class
  | Instance runtime_class
  | Function function_term
  | UnboundMethod runtime_class function_term
  | BoundMethod runtime_class function_term

subsection \<open>AST nodes and scopes\<close>

text \<open>The values an \<^verbatim>\<open>ast.Constant\<close> can hold, and \<^verbatim>\<open>type(value)\<close>.\<close>

datatype py_value =
    IntV int
  | StrV string
  | BytesV string
  | BoolV bool
  | FloatV int int
  | ComplexV int int
  | NoneV
  | EllipsisV

definition builtin :: "string \<Rightarrow> runtime_class" where
  "builtin n = PyClass ''builtins'' n"

fun type_of :: "py_value \<Rightarrow> runtime_class" where
  "type_of (IntV _) = builtin ''int''"
| "type_of (StrV _) = builtin ''str''"
| "type_of (BytesV _) = builtin ''bytes''"
| "type_of (BoolV _) = builtin ''bool''"
| "type_of (FloatV _ _) = builtin ''float''"
| "type_of (ComplexV _ _) = builtin ''complex''"
| "type_of NoneV = builtin ''NoneType''"
| "type_of EllipsisV = builtin ''ellipsis''"

definition Generator :: runtime_class where
  "Generator = PyClass ''collections.abc'' ''Generator''"

text \<open>
  The node kinds the callback tells apart, each with its identity first and then the fields
  the callback reads: children are named by their identity.
\<close>

datatype node =
    Constant nat py_value
  | JoinedStr nat
  | ListNode nat
  | TupleNode nat
  | SetNode nat
  | DictNode nat
  | Call nat nat "int option"
  | Attribute nat nat string
  | NamedExpr nat nat nat
  | ListComp nat
  | SetComp nat
  | GeneratorExp nat
  | DictComp nat
  | Assign nat "nat list" nat
  | AnnAssign nat nat nat "nat option"
  | FunctionDef nat
  | AsyncFunctionDef nat
  | Lambda nat
  | ClassDef nat
  | OtherNode nat

fun node_id :: "node \<Rightarrow> nat" where
  "node_id (Constant i _) = i"
| "node_id (JoinedStr i) = i"
| "node_id (ListNode i) = i"
| "node_id (TupleNode i) = i"
| "node_id (SetNode i) = i"
| "node_id (DictNode i) = i"
| "node_id (Call i _ _) = i"
| "node_id (Attribute i _ _) = i"
| "node_id (NamedExpr i _ _) = i"
| "node_id (ListComp i) = i"
| "node_id (SetComp i) = i"
| "node_id (GeneratorExp i) = i"
| "node_id (DictComp i) = i"
| "node_id (Assign i _ _) = i"
| "node_id (AnnAssign i _ _ _) = i"
| "node_id (FunctionDef i) = i"
| "node_id (AsyncFunctionDef i) = i"
| "node_id (Lambda i) = i"
| "node_id (ClassDef i) = i"
| "node_id (OtherNode i) = i"

text \<open>
  Modelled from the spec: \<^verbatim>\<open>NodeProvidingScope\<close> of
  \<^verbatim>\<open>scoped_evaluation_order_node_visitor\<close>, the scope-providing ancestors (module, function,
  lambda, class, comprehension). A module node has no \<^verbatim>\<open>name\<close> and no line span; a lambda and
  a comprehension have a line span and no \<^verbatim>\<open>name\<close>.
\<close>

datatype scope =
    ScopeModule
  | ScopeFunctionDef string int int
  | ScopeAsyncFunctionDef string int int
  | ScopeClassDef string int int
  | ScopeLambda int int
  | ScopeComprehension int int

text \<open>\<^verbatim>\<open>getattr(scope, 'name', None)\<close>, and the same for \<^verbatim>\<open>lineno\<close> and \<^verbatim>\<open>end_lineno\<close>.\<close>

fun getattr_name :: "scope \<Rightarrow> string option" where
  "getattr_name ScopeModule = None"
| "getattr_name (ScopeFunctionDef n _ _) = Some n"
| "getattr_name (ScopeAsyncFunctionDef n _ _) = Some n"
| "getattr_name (ScopeClassDef n _ _) = Some n"
| "getattr_name (ScopeLambda _ _) = None"
| "getattr_name (ScopeComprehension _ _) = None"

fun getattr_lineno :: "scope \<Rightarrow> int option" where
  "getattr_lineno ScopeModule = None"
| "getattr_lineno (ScopeFunctionDef _ l _) = Some l"
| "getattr_lineno (ScopeAsyncFunctionDef _ l _) = Some l"
| "getattr_lineno (ScopeClassDef _ l _) = Some l"
| "getattr_lineno (ScopeLambda l _) = Some l"
| "getattr_lineno (ScopeComprehension l _) = Some l"

fun getattr_end_lineno :: "scope \<Rightarrow> int option" where
  "getattr_end_lineno ScopeModule = None"
| "getattr_end_lineno (ScopeFunctionDef _ _ e) = Some e"
| "getattr_end_lineno (ScopeAsyncFunctionDef _ _ e) = Some e"
| "getattr_end_lineno (ScopeClassDef _ _ e) = Some e"
| "getattr_end_lineno (ScopeLambda _ e) = Some e"
| "getattr_end_lineno (ScopeComprehension _ e) = Some e"

subsection \<open>The stateful section of the driver\<close>

text \<open>
  One printed line, as the values the f-string interpolates, in the order of the line.
\<close>

record call_site =
  callee_module :: string
  callee_class :: string
  callee_function_name :: string
  start_line :: int
  end_line :: int
  caller_module :: string
  caller_function_name :: "string option"
  call_line :: "int option"
  caller_function_start :: "int option"
  caller_function_end :: "int option"
  signature :: string

text \<open>
  \<^verbatim>\<open>node_runtime_terms\<close> is a dictionary from nodes to sets of runtime terms. A set is a
  list here, because the callback iterates over these sets; the order of the list means
  nothing, and every loop over a set goes through an iteration order (below).
  \<open>stdout\<close> collects what \<^verbatim>\<open>print\<close> writes.
\<close>

record state =
  node_runtime_terms :: "nat \<rightharpoonup> runtime_term list"
  stdout :: "call_site list"

definition get_runtime_terms :: "state \<Rightarrow> nat \<Rightarrow> runtime_term list" where
  "get_runtime_terms s node = (case node_runtime_terms s node of None \<Rightarrow> [] | Some ts \<Rightarrow> ts)"

definition update_runtime_terms :: "nat \<Rightarrow> runtime_term list \<Rightarrow> state \<Rightarrow> state" where
  "update_runtime_terms node runtime_terms s =
     s\<lparr>node_runtime_terms :=
         (node_runtime_terms s)(node \<mapsto> List.union runtime_terms (get_runtime_terms s node))\<rparr>"

subsection \<open>The constraint engine\<close>

text \<open>
  What \<^verbatim>\<open>modified_handle_local_syntax_directed_typing_constraints\<close> receives and the
  functions it imports from modules of the repository that are outside this development
  (\<^verbatim>\<open>get_unwrapped_constructor\<close>, \<^verbatim>\<open>get_comprehensive_dict_for_runtime_class\<close>,
  \<^verbatim>\<open>unwrap\<close>, \<^verbatim>\<open>get_attribute_access_result\<close>), taken as they are.
\<close>

record env =
  current_module_name :: string
  top_level_class_definitions_to_runtime_classes :: "nat \<rightharpoonup> runtime_class"
  unwrapped_runtime_functions_to_named_function_definitions :: "runtime_function \<rightharpoonup> nat"
  named_function_definitions_to_unwrapped_runtime_functions :: "nat \<rightharpoonup> runtime_function"
  node_to_definition_node_mapping :: "nat \<rightharpoonup> nat"
  get_unwrapped_constructor :: "runtime_class \<Rightarrow> runtime_function"
  get_comprehensive_dict_for_runtime_class :: "runtime_class \<Rightarrow> (string \<rightharpoonup> runtime_function)"
  unwrap :: "runtime_function \<Rightarrow> runtime_function"
  get_attribute_access_result :: "runtime_term \<Rightarrow> string \<Rightarrow> runtime_term option"

text \<open>\<^verbatim>\<open>node_to_definition_node_mapping.get(node, node)\<close>.\<close>

definition definition_node :: "env \<Rightarrow> nat \<Rightarrow> nat" where
  "definition_node E node =
     (case node_to_definition_node_mapping E node of None \<Rightarrow> node | Some d \<Rightarrow> d)"

definition get_runtime_terms_of_definition_node :: "env \<Rightarrow> state \<Rightarrow> nat \<Rightarrow> runtime_term list" where
  "get_runtime_terms_of_definition_node E s node = get_runtime_terms s (definition_node E node)"

definition update_runtime_terms_of_definition_node ::
  "env \<Rightarrow> nat \<Rightarrow> runtime_term list \<Rightarrow> state \<Rightarrow> state" where
  "update_runtime_terms_of_definition_node E node runtime_terms s =
     update_runtime_terms (definition_node E node) runtime_terms s"

definition update_runtime_terms_of_definition_node_from_runtime_class ::
  "env \<Rightarrow> nat \<Rightarrow> runtime_class \<Rightarrow> state \<Rightarrow> state" where
  "update_runtime_terms_of_definition_node_from_runtime_class E node runtime_class s =
     update_runtime_terms_of_definition_node E node [Instance runtime_class] s"

text \<open>
  The local variables of the call branch that the loop over the callee's terms assigns.
  They are set before the loop; \<^verbatim>\<open>callee_function\<close> is unbound until a branch assigns it.
\<close>

record call_vars =
  callee_module_name :: "string option"
  callee_class_name :: "string option"
  callee_function_name_var :: "string option"
  callee_function :: "runtime_function option"

definition initial_call_vars :: call_vars where
  "initial_call_vars =
     \<lparr>callee_module_name = None, callee_class_name = None,
      callee_function_name_var = None, callee_function = None\<rparr>"

definition set_callee ::
  "string \<Rightarrow> string \<Rightarrow> string \<Rightarrow> runtime_function \<Rightarrow> call_vars" where
  "set_callee m c n f =
     \<lparr>callee_module_name = Some m, callee_class_name = Some c,
      callee_function_name_var = Some n, callee_function = Some f\<rparr>"

text \<open>\<^verbatim>\<open>x in unwrapped_runtime_functions_to_named_function_definitions\<close>.\<close>

definition is_known :: "env \<Rightarrow> runtime_function \<Rightarrow> bool" where
  "is_known E f = (unwrapped_runtime_functions_to_named_function_definitions E f \<noteq> None)"

text \<open>
  The assignments of the if/elif chain over the shapes of a runtime term: a branch that
  resolves assigns all four variables, the others leave them as they are.
\<close>

fun method_callee :: "env \<Rightarrow> runtime_class \<Rightarrow> function_term \<Rightarrow> call_vars \<Rightarrow> call_vars" where
  "method_callee E cls (FunctionDefinition d) v =
     (case named_function_definitions_to_unwrapped_runtime_functions E d of
        Some unwrapped_runtime_function \<Rightarrow>
          set_callee (cls_module cls) (cls_name cls)
            (fn_name unwrapped_runtime_function) unwrapped_runtime_function
      | None \<Rightarrow> v)"
| "method_callee E cls (UnwrappedRuntimeFunction f) v =
     (if is_known E f then set_callee (cls_module cls) (cls_name cls) (fn_name f) f else v)"

fun assign_callee :: "env \<Rightarrow> runtime_term \<Rightarrow> call_vars \<Rightarrow> call_vars" where
  "assign_callee E (RuntimeClass c) v =
     (let unwrapped_constructor = get_unwrapped_constructor E c in
      if is_known E unwrapped_constructor
      then set_callee (cls_module c) (cls_name c)
             (fn_name unwrapped_constructor) unwrapped_constructor
      else v)"
| "assign_callee E (Function (FunctionDefinition d)) v =
     (case named_function_definitions_to_unwrapped_runtime_functions E d of
        Some unwrapped_runtime_function \<Rightarrow>
          set_callee (fn_module unwrapped_runtime_function) ''global''
            (fn_name unwrapped_runtime_function) unwrapped_runtime_function
      | None \<Rightarrow> v)"
| "assign_callee E (Function (UnwrappedRuntimeFunction f)) v =
     (if is_known E f then set_callee (fn_module f) ''global'' (fn_name f) f else v)"
| "assign_callee E (UnboundMethod cls function) v = method_callee E cls function v"
| "assign_callee E (Instance cls) v =
     (case get_comprehensive_dict_for_runtime_class E cls ''__call__'' of
        Some call \<Rightarrow>
          (let unwrapped_call = unwrap E call in
           if is_known E unwrapped_call
           then set_callee (cls_module cls) (cls_name cls) (fn_name unwrapped_call) unwrapped_call
           else v)
      | None \<Rightarrow> v)"
| "assign_callee E (BoundMethod cls function) v = method_callee E cls function v"
| "assign_callee E (Module _) v = v"

text \<open>Truth value of an \<^verbatim>\<open>Optional[str]\<close>: \<^verbatim>\<open>None\<close> and the empty string are false.\<close>

fun truthy :: "string option \<Rightarrow> bool" where
  "truthy None = False"
| "truthy (Some s) = (s \<noteq> [])"

text \<open>What the callback reads off the scope stack and the call node before the loop.\<close>

record caller_info =
  caller_module_name :: string
  caller_function_name_var :: "string option"
  call_line_var :: "int option"
  caller_function_start_var :: "int option"
  caller_function_end_var :: "int option"

definition caller_of :: "env \<Rightarrow> int option \<Rightarrow> scope list \<Rightarrow> caller_info" where
  "caller_of E lineno scope_stack =
     \<lparr>caller_module_name = current_module_name E,
      caller_function_name_var = (if scope_stack \<noteq> [] then getattr_name (last scope_stack) else None),
      call_line_var = lineno,
      caller_function_start_var = (if scope_stack \<noteq> [] then getattr_lineno (last scope_stack) else None),
      caller_function_end_var = (if scope_stack \<noteq> [] then getattr_end_lineno (last scope_stack) else None)\<rparr>"

definition record_of :: "caller_info \<Rightarrow> string \<Rightarrow> string \<Rightarrow> string \<Rightarrow> runtime_function \<Rightarrow> call_site" where
  "record_of c m cl n f =
     \<lparr>callee_module = m, callee_class = cl, callee_function_name = n,
      start_line = fn_start_line f,
      end_line = fn_start_line f + int (length (fn_source_lines f)) - 1,
      caller_module = caller_module_name c,
      caller_function_name = caller_function_name_var c,
      call_line = call_line_var c,
      caller_function_start = caller_function_start_var c,
      caller_function_end = caller_function_end_var c,
      signature = fn_signature f\<rparr>"

text \<open>
  The last statement of the loop body: the \<^verbatim>\<open>if\<close> on the three names and the
  \<^verbatim>\<open>print\<close>. With the three names set, \<^verbatim>\<open>callee_function\<close> is bound
  (\<open>call_vars_bound\<close> below).
\<close>

definition print_call_site :: "caller_info \<Rightarrow> call_vars \<Rightarrow> state \<Rightarrow> state" where
  "print_call_site c v s =
     (if truthy (callee_module_name v) \<and> truthy (callee_class_name v)
         \<and> truthy (callee_function_name_var v)
      then (case callee_function v of
              Some f \<Rightarrow>
                s\<lparr>stdout := stdout s @
                    [record_of c (the (callee_module_name v)) (the (callee_class_name v))
                       (the (callee_function_name_var v)) f]\<rparr>
            | None \<Rightarrow> s)
      else s)"

text \<open>
  One iteration of \<^verbatim>\<open>for runtime_term in ...\<close> of the call branch. The loop runs over the
  terms of the callee as they are when it starts: a call node is not in the use-define
  mapping, so the set that the class branch updates is not the set being iterated.
\<close>

definition call_iteration ::
  "env \<Rightarrow> nat \<Rightarrow> caller_info \<Rightarrow> call_vars \<times> state \<Rightarrow> runtime_term \<Rightarrow> call_vars \<times> state" where
  "call_iteration E node c vs runtime_term =
     (let v = assign_callee E runtime_term (fst vs);
          s = (case runtime_term of
                 RuntimeClass cls \<Rightarrow>
                   update_runtime_terms_of_definition_node E node [Instance cls] (snd vs)
               | _ \<Rightarrow> snd vs)
      in (v, print_call_site c v s))"

definition call_loop ::
  "env \<Rightarrow> nat \<Rightarrow> caller_info \<Rightarrow> runtime_term list \<Rightarrow> state \<Rightarrow> call_vars \<times> state" where
  "call_loop E node c runtime_terms s =
     foldl (call_iteration E node c) (initial_call_vars, s) runtime_terms"

text \<open>\<^verbatim>\<open>itertools.pairwise\<close>.\<close>

fun itertools_pairwise :: "'a list \<Rightarrow> ('a \<times> 'a) list" where
  "itertools_pairwise (x # y # zs) = (x, y) # itertools_pairwise (y # zs)"
| "itertools_pairwise _ = []"

text \<open>One iteration of the loop of the assignment branch.\<close>

definition transfer :: "env \<Rightarrow> state \<Rightarrow> nat \<times> nat \<Rightarrow> state" where
  "transfer E s vt =
     update_runtime_terms_of_definition_node E (snd vt)
       (get_runtime_terms_of_definition_node E s (fst vt)) s"

text \<open>
  \<^verbatim>\<open>handle_local_syntax_directed_typing_constraints_callback\<close>. The first argument is the
  order in which a set of runtime terms is iterated, which the language leaves open.
\<close>

fun handle_local_syntax_directed_typing_constraints_callback ::
  "(runtime_term list \<Rightarrow> runtime_term list) \<Rightarrow> env \<Rightarrow> node \<Rightarrow> scope list \<Rightarrow> state \<Rightarrow> state" where
  "handle_local_syntax_directed_typing_constraints_callback ord E (Constant i v) ss s =
     update_runtime_terms_of_definition_node_from_runtime_class E i (type_of v) s"
| "handle_local_syntax_directed_typing_constraints_callback ord E (JoinedStr i) ss s =
     update_runtime_terms_of_definition_node_from_runtime_class E i (builtin ''str'') s"
| "handle_local_syntax_directed_typing_constraints_callback ord E (ListNode i) ss s =
     update_runtime_terms_of_definition_node_from_runtime_class E i (builtin ''list'') s"
| "handle_local_syntax_directed_typing_constraints_callback ord E (TupleNode i) ss s =
     update_runtime_terms_of_definition_node_from_runtime_class E i (builtin ''tuple'') s"
| "handle_local_syntax_directed_typing_constraints_callback ord E (SetNode i) ss s =
     update_runtime_terms_of_definition_node_from_runtime_class E i (builtin ''set'') s"
| "handle_local_syntax_directed_typing_constraints_callback ord E (DictNode i) ss s =
     update_runtime_terms_of_definition_node_from_runtime_class E i (builtin ''dict'') s"
| "handle_local_syntax_directed_typing_constraints_callback ord E (Call i func lineno) ss s =
     snd (call_loop E i (caller_of E lineno ss)
            (ord (get_runtime_terms_of_definition_node E s func)) s)"
| "handle_local_syntax_directed_typing_constraints_callback ord E (Attribute i val attr) ss s =
     update_runtime_terms_of_definition_node E i
       (List.map_filter (\<lambda>runtime_term. get_attribute_access_result E runtime_term attr)
          (ord (get_runtime_terms_of_definition_node E s val))) s"
| "handle_local_syntax_directed_typing_constraints_callback ord E (NamedExpr i target val) ss s =
     transfer E s (val, target)"
| "handle_local_syntax_directed_typing_constraints_callback ord E (ListComp i) ss s =
     update_runtime_terms_of_definition_node_from_runtime_class E i (builtin ''list'') s"
| "handle_local_syntax_directed_typing_constraints_callback ord E (SetComp i) ss s =
     update_runtime_terms_of_definition_node_from_runtime_class E i (builtin ''set'') s"
| "handle_local_syntax_directed_typing_constraints_callback ord E (GeneratorExp i) ss s =
     update_runtime_terms_of_definition_node_from_runtime_class E i Generator s"
| "handle_local_syntax_directed_typing_constraints_callback ord E (DictComp i) ss s =
     update_runtime_terms_of_definition_node_from_runtime_class E i (builtin ''dict'') s"
| "handle_local_syntax_directed_typing_constraints_callback ord E (Assign i targets val) ss s =
     foldl (transfer E) s (itertools_pairwise (rev (targets @ [val])))"
| "handle_local_syntax_directed_typing_constraints_callback ord E (AnnAssign i target annotation val) ss s =
     (case val of None \<Rightarrow> s | Some v \<Rightarrow> transfer E s (v, target))"
| "handle_local_syntax_directed_typing_constraints_callback ord E (FunctionDef i) ss s =
     update_runtime_terms_of_definition_node E i [Function (FunctionDefinition i)] s"
| "handle_local_syntax_directed_typing_constraints_callback ord E (AsyncFunctionDef i) ss s =
     update_runtime_terms_of_definition_node E i [Function (FunctionDefinition i)] s"
| "handle_local_syntax_directed_typing_constraints_callback ord E (Lambda i) ss s =
     update_runtime_terms_of_definition_node E i [Function (FunctionDefinition i)] s"
| "handle_local_syntax_directed_typing_constraints_callback ord E (ClassDef i) ss s =
     (case top_level_class_definitions_to_runtime_classes E i of
        Some runtime_class \<Rightarrow> update_runtime_terms_of_definition_node E i [RuntimeClass runtime_class] s
      | None \<Rightarrow> s)"
| "handle_local_syntax_directed_typing_constraints_callback ord E (OtherNode i) ss s = s"

text \<open>
  Modelled from the spec: \<^verbatim>\<open>scoped_evaluation_order_node_visitor\<close>, which calls the callback
  on every node of the module in evaluation order, with the stack of scope-providing
  ancestors. The visit sequence of a module is the list of these calls.
\<close>

definition modified_handle_local_syntax_directed_typing_constraints ::
  "(runtime_term list \<Rightarrow> runtime_term list) \<Rightarrow> env \<Rightarrow> (node \<times> scope list) list \<Rightarrow> state \<Rightarrow> state" where
  "modified_handle_local_syntax_directed_typing_constraints ord E visits s =
     foldl (\<lambda>s' (n, ss). handle_local_syntax_directed_typing_constraints_callback ord E n ss s')
       s visits"

text \<open>
  An iteration order enumerates a set: each of its elements once, in some order.
\<close>

definition is_iteration_order :: "(runtime_term list \<Rightarrow> runtime_term list) \<Rightarrow> bool" where
  "is_iteration_order ord = (\<forall>xs. set (ord xs) = set xs \<and> distinct (ord xs))"

subsection \<open>The printed line\<close>

text \<open>\<^verbatim>\<open>str\<close> of an integer and of an optional value, as an f-string formats them.\<close>

fun str_nat :: "nat \<Rightarrow> string" where
  "str_nat n =
     (if n < 10 then [''0123456789'' ! n]
      else str_nat (n div 10) @ [''0123456789'' ! (n mod 10)])"

definition str_int :: "int \<Rightarrow> string" where
  "str_int i = (if i < 0 then ''-'' @ str_nat (nat (- i)) else str_nat (nat i))"

fun str_optional_int :: "int option \<Rightarrow> string" where
  "str_optional_int None = ''None''"
| "str_optional_int (Some i) = str_int i"

fun str_optional_str :: "string option \<Rightarrow> string" where
  "str_optional_str None = ''None''"
| "str_optional_str (Some s) = s"

text \<open>The f-string of the \<^verbatim>\<open>print\<close> call: eleven fields, the signature in double quotes.\<close>

definition print_line :: "call_site \<Rightarrow> string" where
  "print_line r =
     callee_module r @ '','' @ callee_class r @ '','' @ callee_function_name r @ '',''
     @ str_int (start_line r) @ '','' @ str_int (end_line r) @ '',''
     @ caller_module r @ '','' @ str_optional_str (caller_function_name r) @ '',''
     @ str_optional_int (call_line r) @ '',''
     @ str_optional_int (caller_function_start r) @ '',''
     @ str_optional_int (caller_function_end r) @ '',''
     @ [CHR 0x22] @ signature r @ [CHR 0x22]"

subsection \<open>The module loops of the driver\<close>

text \<open>The exception classes that matter to the driver's \<^verbatim>\<open>except\<close> clause.\<close>

datatype exc =
    ImportError
  | ModuleNotFoundError
  | UnicodeError
  | UnicodeDecodeError
  | UnicodeEncodeError
  | ValueError
  | SyntaxError
  | OSError
  | NameError
  | AttributeError
  | TypeError
  | RuntimeError

text \<open>\<^verbatim>\<open>except (ImportError, UnicodeError)\<close> catches these classes and their subclasses.\<close>

fun caught :: "exc \<Rightarrow> bool" where
  "caught ImportError = True"
| "caught ModuleNotFoundError = True"
| "caught UnicodeError = True"
| "caught UnicodeDecodeError = True"
| "caught UnicodeEncodeError = True"
| "caught _ = False"

definition endswith :: "string \<Rightarrow> string \<Rightarrow> bool" where
  "endswith s suffix =
     (length suffix \<le> length s \<and> drop (length s - length suffix) s = suffix)"

definition skipped :: "string \<Rightarrow> bool" where
  "skipped file_path = (endswith file_path ''setup.py'' \<or> endswith file_path ''__main__.py'')"

record ('n, 'm) imported =
  module_name_to_module_node :: "(string \<times> 'n) list"
  module_name_to_module :: "(string \<times> 'm) list"
  logged :: "string list"

definition no_modules :: "('n, 'm) imported" where
  "no_modules = \<lparr>module_name_to_module_node = [], module_name_to_module = [], logged = []\<rparr>"

text \<open>
  The body of the \<^verbatim>\<open>try\<close>: read and parse the file, then import the module. Both are
  functions of the file system and the interpreter, taken as they are; each returns its result
  or the exception it raises.
\<close>

definition try_import ::
  "(string \<Rightarrow> exc + 'n) \<Rightarrow> (string \<Rightarrow> exc + 'm) \<Rightarrow> string \<Rightarrow> string \<Rightarrow> exc + ('n \<times> 'm)" where
  "try_import parse_file import_module name file_path =
     (case parse_file file_path of
        Inl e \<Rightarrow> Inl e
      | Inr module_node \<Rightarrow>
          (case import_module name of
             Inl e \<Rightarrow> Inl e
           | Inr module \<Rightarrow> Inr (module_node, module)))"

text \<open>The import loop over \<^verbatim>\<open>module_name_to_file_path_dict.items()\<close>.\<close>

fun import_modules ::
  "(string \<Rightarrow> exc + 'n) \<Rightarrow> (string \<Rightarrow> exc + 'm) \<Rightarrow> (string \<times> string) list
     \<Rightarrow> ('n, 'm) imported \<Rightarrow> exc + ('n, 'm) imported" where
  "import_modules parse_file import_module [] st = Inr st"
| "import_modules parse_file import_module ((name, file_path) # rest) st =
     (if skipped file_path then import_modules parse_file import_module rest st
      else
        (case try_import parse_file import_module name file_path of
           Inr (module_node, module) \<Rightarrow>
             import_modules parse_file import_module rest
               (st\<lparr>module_name_to_module_node :=
                     AList.update name module_node (module_name_to_module_node st),
                   module_name_to_module :=
                     AList.update name module (module_name_to_module st)\<rparr>)
         | Inl e \<Rightarrow>
             if caught e
             then import_modules parse_file import_module rest (st\<lparr>logged := logged st @ [name]\<rparr>)
             else Inl e))"

text \<open>
  The loop that handles each module; it has no \<^verbatim>\<open>try\<close>. Its body creates the placeholder
  definition nodes (for the builtins, the five singleton values, the imported names and the
  classes of the module) and gives each its term with \<^verbatim>\<open>update_runtime_terms\<close>, builds the
  use-define mapping from the module node and the placeholders, and runs the constraint
  engine. Nothing before the engine reads \<^verbatim>\<open>node_runtime_terms\<close> or prints.
  \<open>prepare\<close> stands for what comes before the engine, a function of the module alone: the
  placeholder nodes with their terms, what the engine is called with and the nodes the
  visitor will visit, or the exception raised on the way.
\<close>

definition seed_placeholders :: "(nat \<times> runtime_term list) list \<Rightarrow> state \<Rightarrow> state" where
  "seed_placeholders placeholders s =
     foldl (\<lambda>s' (dummy_definition_node, runtime_terms).
              update_runtime_terms dummy_definition_node runtime_terms s') s placeholders"

definition handle_module ::
  "(runtime_term list \<Rightarrow> runtime_term list)
     \<Rightarrow> (string \<Rightarrow> 'n \<Rightarrow> exc + ((nat \<times> runtime_term list) list \<times> env \<times> (node \<times> scope list) list))
     \<Rightarrow> string \<Rightarrow> 'n \<Rightarrow> state \<Rightarrow> exc + state" where
  "handle_module ord prepare name module_node s =
     (case prepare name module_node of
        Inl e \<Rightarrow> Inl e
      | Inr (placeholders, E, visits) \<Rightarrow>
          Inr (modified_handle_local_syntax_directed_typing_constraints ord E visits
                 (seed_placeholders placeholders s)))"

fun handle_modules ::
  "(string \<Rightarrow> 'n \<Rightarrow> state \<Rightarrow> exc + state) \<Rightarrow> (string \<times> 'n) list \<Rightarrow> state \<Rightarrow> exc + state" where
  "handle_modules body [] s = Inr s"
| "handle_modules body ((name, module_node) # rest) s =
     (case body name module_node s of
        Inl e \<Rightarrow> Inl e
      | Inr s' \<Rightarrow> handle_modules body rest s')"

definition no_terms :: state where
  "no_terms = \<lparr>node_runtime_terms = Map.empty, stdout = []\<rparr>"

definition main ::
  "(runtime_term list \<Rightarrow> runtime_term list)
     \<Rightarrow> (string \<Rightarrow> exc + 'n) \<Rightarrow> (string \<Rightarrow> exc + 'm)
     \<Rightarrow> (string \<Rightarrow> 'n \<Rightarrow> exc + ((nat \<times> runtime_term list) list \<times> env \<times> (node \<times> scope list) list))
     \<Rightarrow> (string \<times> string) list \<Rightarrow> exc + state" where
  "main ord parse_file import_module prepare module_name_to_file_path_dict =
     (case import_modules parse_file import_module module_name_to_file_path_dict no_modules of
        Inl e \<Rightarrow> Inl e
      | Inr st \<Rightarrow>
          handle_modules (handle_module ord prepare) (module_name_to_module_node st) no_terms)"

text \<open>
  What a run has written to the standard output when it ends, normally or with an
  exception: a line that was printed stays printed when a later module raises. A module
  that raises does so before its engine runs, so it has printed nothing itself.
\<close>

fun printed_by_modules ::
  "(runtime_term list \<Rightarrow> runtime_term list)
     \<Rightarrow> (string \<Rightarrow> 'n \<Rightarrow> exc + ((nat \<times> runtime_term list) list \<times> env \<times> (node \<times> scope list) list))
     \<Rightarrow> (string \<times> 'n) list \<Rightarrow> state \<Rightarrow> call_site list" where
  "printed_by_modules ord prepare [] s = stdout s"
| "printed_by_modules ord prepare ((name, module_node) # rest) s =
     (case handle_module ord prepare name module_node s of
        Inl e \<Rightarrow> stdout s
      | Inr s' \<Rightarrow> printed_by_modules ord prepare rest s')"

definition printed_by_main ::
  "(runtime_term list \<Rightarrow> runtime_term list)
     \<Rightarrow> (string \<Rightarrow> exc + 'n) \<Rightarrow> (string \<Rightarrow> exc + 'm)
     \<Rightarrow> (string \<Rightarrow> 'n \<Rightarrow> exc + ((nat \<times> runtime_term list) list \<times> env \<times> (node \<times> scope list) list))
     \<Rightarrow> (string \<times> string) list \<Rightarrow> call_site list" where
  "printed_by_main ord parse_file import_module prepare module_name_to_file_path_dict =
     (case import_modules parse_file import_module module_name_to_file_path_dict no_modules of
        Inl e \<Rightarrow> []
      | Inr st \<Rightarrow> printed_by_modules ord prepare (module_name_to_module_node st) no_terms)"

subsection \<open>Auxiliary definitions\<close>

text \<open>The instances of the classes among the candidates of a call.\<close>

definition class_instances :: "runtime_term list \<Rightarrow> runtime_term set" where
  "class_instances ts = {Instance c | c. RuntimeClass c \<in> set ts}"

text \<open>
  The nodes whose definition node the rule of a node updates: the node itself for a literal, a
  call, an attribute access and a function or class definition, the targets for an assignment.
\<close>

fun updated_nodes :: "env \<Rightarrow> node \<Rightarrow> nat list" where
  "updated_nodes E (NamedExpr i target val) = [target]"
| "updated_nodes E (Assign i targets val) = targets"
| "updated_nodes E (AnnAssign i target annotation val) = (case val of None \<Rightarrow> [] | Some _ \<Rightarrow> [target])"
| "updated_nodes E (ClassDef i) =
     (case top_level_class_definitions_to_runtime_classes E i of None \<Rightarrow> [] | Some _ \<Rightarrow> [i])"
| "updated_nodes E (OtherNode i) = []"
| "updated_nodes E n = [node_id n]"

text \<open>A node whose rule is: this node is an instance of the class \<open>c\<close>.\<close>

definition instance_rule :: "env \<Rightarrow> node \<Rightarrow> runtime_class \<Rightarrow> bool" where
  "instance_rule E n c =
     (\<forall>ord ss s. handle_local_syntax_directed_typing_constraints_callback ord E n ss s =
        update_runtime_terms_of_definition_node_from_runtime_class E (node_id n) c s)"

text \<open>What one iteration prints with the variables \<open>v\<close>: at most one record.\<close>

definition printed_for :: "caller_info \<Rightarrow> call_vars \<Rightarrow> call_site list" where
  "printed_for c v = stdout (print_call_site c v no_terms)"

text \<open>
  The record of a candidate of its own: what its iteration prints when the variables are
  unset before it.
\<close>

definition own_record :: "env \<Rightarrow> caller_info \<Rightarrow> runtime_term \<Rightarrow> call_site list" where
  "own_record E c t = printed_for c (assign_callee E t initial_call_vars)"

text \<open>Two states with the same sets of terms and the same set of printed records.\<close>

definition same_sets :: "state \<Rightarrow> state \<Rightarrow> bool" where
  "same_sets s1 s2 =
     ((\<forall>n. set (get_runtime_terms s1 n) = set (get_runtime_terms s2 n))
      \<and> set (stdout s1) = set (stdout s2))"

text \<open>
  The modules of the table that are not skipped and load, with their parsed nodes, and the
  names of those that are not skipped and fail.
\<close>

definition loaded_nodes ::
  "(string \<Rightarrow> exc + 'n) \<Rightarrow> (string \<Rightarrow> exc + 'm) \<Rightarrow> (string \<times> string) list \<Rightarrow> (string \<times> 'n) list" where
  "loaded_nodes parse_file import_module table =
     List.map_filter (\<lambda>(name, file_path).
        if skipped file_path then None
        else (case try_import parse_file import_module name file_path of
                Inr (module_node, module) \<Rightarrow> Some (name, module_node)
              | Inl e \<Rightarrow> None)) table"

definition failed_names ::
  "(string \<Rightarrow> exc + 'n) \<Rightarrow> (string \<Rightarrow> exc + 'm) \<Rightarrow> (string \<times> string) list \<Rightarrow> string list" where
  "failed_names parse_file import_module table =
     map fst (filter (\<lambda>(name, file_path).
        \<not> skipped file_path \<and> isl (try_import parse_file import_module name file_path)) table)"

text \<open>Two runs end alike: with the same exception, or with states that hold the same sets.\<close>

definition end_alike :: "exc + state \<Rightarrow> exc + state \<Rightarrow> bool" where
  "end_alike r1 r2 =
     (case r1 of
        Inl e1 \<Rightarrow> r2 = Inl e1
      | Inr s1 \<Rightarrow> (case r2 of Inl e2 \<Rightarrow> False | Inr s2 \<Rightarrow> same_sets s1 s2))"

subsection \<open>An example module\<close>

text \<open>
  The module \<open>m\<close>, with the identities of the nodes that matter:
  \<^verbatim>\<open>
  1  def foo(x): pass            # FunctionDef 1
  3  class K:
  4      def __init__(self): pass  # FunctionDef 6
  5  def bar():                  # FunctionDef 2
  6      foo(42)                 # Name 3, Constant 4, Call 5
  \<close>
  The use-define mapping sends the name \<open>foo\<close> of line 6 (node 3) to the definition of
  \<open>foo\<close> (node 1); \<open>foo\<close> and \<open>K.__init__\<close> are in the bridge tables. Every class other than
  \<open>K\<close> has the constructor of \<open>object\<close>, which is not in the tables, and no class has
  \<^verbatim>\<open>__call__\<close>.
\<close>

definition foo_fn :: runtime_function where
  "foo_fn = RuntimeFunction 0 ''m'' ''foo'' [''def foo(x): pass''] 1 ''(x)''"

definition K_init :: runtime_function where
  "K_init = RuntimeFunction 1 ''m'' ''__init__'' [''    def __init__(self): pass''] 4 ''(self)''"

definition object_init :: runtime_function where
  "object_init = RuntimeFunction 2 ''builtins'' ''__init__'' [] 0 ''(self, /, *args, **kwargs)''"

definition example_env :: env where
  "example_env =
     \<lparr>current_module_name = ''m'',
      top_level_class_definitions_to_runtime_classes = Map.empty,
      unwrapped_runtime_functions_to_named_function_definitions = [foo_fn \<mapsto> 1, K_init \<mapsto> 6],
      named_function_definitions_to_unwrapped_runtime_functions = [1 \<mapsto> foo_fn, 6 \<mapsto> K_init],
      node_to_definition_node_mapping = [3 \<mapsto> 1],
      get_unwrapped_constructor = (\<lambda>c. if c = PyClass ''m'' ''K'' then K_init else object_init),
      get_comprehensive_dict_for_runtime_class = (\<lambda>c. Map.empty),
      unwrap = (\<lambda>f. f),
      get_attribute_access_result = (\<lambda>t a. None)\<rparr>"

definition bar_scope :: "scope list" where
  "bar_scope = [ScopeModule, ScopeFunctionDef ''bar'' 5 6]"

definition example_visits :: "(node \<times> scope list) list" where
  "example_visits =
     [(FunctionDef 1, [ScopeModule]),
      (FunctionDef 6, [ScopeModule, ScopeClassDef ''K'' 3 4]),
      (FunctionDef 2, [ScopeModule]),
      (OtherNode 3, bar_scope),
      (Constant 4 (IntV 42), bar_scope),
      (Call 5 3 (Some 6), bar_scope)]"

text \<open>
  Further down the module a function \<open>baz\<close> on lines 7 to 9 holds a call on line 9
  (node 8) whose callee is the name node 7, directly in \<open>baz\<close> or inside a lambda on
  line 9. In \<open>ambiguous_state\<close> the name \<open>g\<close> of \<^verbatim>\<open>g(1)\<close> was bound to \<open>foo\<close> on one branch
  and to an instance of a class \<open>C\<close> on another; in \<open>class_state\<close> the callee is the class
  \<open>K\<close>; in \<open>instance_state\<close> node 12 is a call that returned an instance of \<open>C\<close>.
\<close>

definition baz_scope :: "scope list" where
  "baz_scope = [ScopeModule, ScopeFunctionDef ''baz'' 7 9]"

definition lambda_scope :: "scope list" where
  "lambda_scope = [ScopeModule, ScopeFunctionDef ''baz'' 7 9, ScopeLambda 9 9]"

definition ambiguous_state :: state where
  "ambiguous_state =
     \<lparr>node_runtime_terms =
        [7 \<mapsto> [Function (FunctionDefinition 1), Instance (PyClass ''m'' ''C'')]],
      stdout = []\<rparr>"

definition class_state :: state where
  "class_state =
     \<lparr>node_runtime_terms = [7 \<mapsto> [RuntimeClass (PyClass ''m'' ''K'')]], stdout = []\<rparr>"

definition instance_state :: state where
  "instance_state =
     \<lparr>node_runtime_terms = [12 \<mapsto> [Instance (PyClass ''m'' ''C'')]], stdout = []\<rparr>"

text \<open>The record of a call of \<open>foo\<close> on line 9 of \<open>baz\<close>.\<close>

definition foo_in_baz :: call_site where
  "foo_in_baz =
     \<lparr>callee_module = ''m'', callee_class = ''global'', callee_function_name = ''foo'',
      start_line = 1, end_line = 1, caller_module = ''m'', caller_function_name = Some ''baz'',
      call_line = Some 9, caller_function_start = Some 7, caller_function_end = Some 9,
      signature = ''(x)''\<rparr>"

text \<open>
  A file system and an interpreter: every file parses, module \<open>a\<close> raises
  \<^verbatim>\<open>AttributeError\<close> when imported and module \<open>c\<close> raises \<^verbatim>\<open>ImportError\<close>.
\<close>

definition example_parse :: "string \<Rightarrow> exc + string" where
  "example_parse file_path = Inr file_path"

definition example_import :: "string \<Rightarrow> exc + string" where
  "example_import name =
     (if name = ''a'' then Inl AttributeError
      else if name = ''c'' then Inl ImportError
      else Inr name)"

definition example_prepare ::
  "string \<Rightarrow> string \<Rightarrow> exc + ((nat \<times> runtime_term list) list \<times> env \<times> (node \<times> scope list) list)" where
  "example_prepare name module_node = Inr ([], example_env, [])"

text \<open>
  A source tree of three modules. Module \<open>m\<close> is the example module. Module \<open>m2\<close> is
  \<^verbatim>\<open>
  1  from m import foo, C        # placeholders 20 (foo) and 21 (C)
  7  def baz(flag):
  8      g = foo                 # Assign 30, target 22, value 23
  8      if flag: g = C()        # Call 24 of 25, Assign 31, target 26
  9      g(1)                    # Call 8 of 7
  \<close>
  with the three names \<open>g\<close> (nodes 22, 26 and 7) sharing the definition node 22.
  Module \<open>m3\<close> cannot be prepared.
\<close>

definition m2_env :: env where
  "m2_env =
     example_env\<lparr>current_module_name := ''m2'',
       node_to_definition_node_mapping := [23 \<mapsto> 20, 25 \<mapsto> 21, 26 \<mapsto> 22, 7 \<mapsto> 22]\<rparr>"

definition m2_visits :: "(node \<times> scope list) list" where
  "m2_visits =
     [(Assign 30 [22] 23, baz_scope),
      (Call 24 25 (Some 8), baz_scope),
      (Assign 31 [26] 24, baz_scope),
      (Call 8 7 (Some 9), baz_scope)]"

definition tree_prepare ::
  "string \<Rightarrow> string \<Rightarrow> exc + ((nat \<times> runtime_term list) list \<times> env \<times> (node \<times> scope list) list)" where
  "tree_prepare name module_node =
     (if name = ''m'' then Inr ([], example_env, example_visits)
      else if name = ''m2'' then
        Inr ([(20, [Function (FunctionDefinition 1)]), (21, [RuntimeClass (PyClass ''m'' ''C'')])],
             m2_env, m2_visits)
      else Inl NameError)"

definition foo_in_bar :: call_site where
  "foo_in_bar =
     \<lparr>callee_module = ''m'', callee_class = ''global'', callee_function_name = ''foo'',
      start_line = 1, end_line = 1, caller_module = ''m'', caller_function_name = Some ''bar'',
      call_line = Some 6, caller_function_start = Some 5, caller_function_end = Some 6,
      signature = ''(x)''\<rparr>"

definition foo_in_baz_of_m2 :: call_site where
  "foo_in_baz_of_m2 =
     \<lparr>callee_module = ''m'', callee_class = ''global'', callee_function_name = ''foo'',
      start_line = 1, end_line = 1, caller_module = ''m2'', caller_function_name = Some ''baz'',
      call_line = Some 9, caller_function_start = Some 7, caller_function_end = Some 9,
      signature = ''(x)''\<rparr>"

definition two_modules :: "(string \<times> string) list" where
  "two_modules = [(''m'', ''m.py''), (''m2'', ''m2.py'')]"

definition three_modules :: "(string \<times> string) list" where
  "three_modules = [(''m'', ''m.py''), (''m2'', ''m2.py''), (''m3'', ''m3.py'')]"

section \<open>Properties of the engine\<close>

lemma get_update_runtime_terms:
  "get_runtime_terms (update_runtime_terms n ts s) m =
     (if m = n then List.union ts (get_runtime_terms s n) else get_runtime_terms s m)"
  by (simp add: get_runtime_terms_def update_runtime_terms_def)

lemma stdout_update_runtime_terms [simp]:
  "stdout (update_runtime_terms n ts s) = stdout s"
  by (simp add: update_runtime_terms_def)

lemma set_get_update_runtime_terms:
  "set (get_runtime_terms (update_runtime_terms n ts s) m) =
     (if m = n then set (get_runtime_terms s n) \<union> set ts else set (get_runtime_terms s m))"
  by (auto simp: get_update_runtime_terms)

lemma get_print_call_site [simp]:
  "get_runtime_terms (print_call_site c v s) m = get_runtime_terms s m"
  by (simp add: print_call_site_def get_runtime_terms_def split: option.splits)

lemma set_get_call_iteration:
  "set (get_runtime_terms (snd (call_iteration E i c vs t)) m) =
     set (get_runtime_terms (snd vs) m) \<union>
       (if m = definition_node E i then class_instances [t] else {})"
  by (cases t)
     (auto simp: call_iteration_def Let_def class_instances_def
        update_runtime_terms_of_definition_node_def set_get_update_runtime_terms)

lemma set_get_foldl_call_iteration:
  "set (get_runtime_terms (snd (foldl (call_iteration E i c) vs ts)) m) =
     set (get_runtime_terms (snd vs) m) \<union>
       (if m = definition_node E i then class_instances ts else {})"
proof (induction ts arbitrary: vs)
  case Nil
  then show ?case by (simp add: class_instances_def)
next
  case (Cons t ts)
  show ?case
    unfolding foldl_Cons Cons.IH set_get_call_iteration
    by (auto simp: class_instances_def)
qed

lemma set_get_call_loop:
  "set (get_runtime_terms (snd (call_loop E i c ts s)) m) =
     set (get_runtime_terms s m) \<union>
       (if m = definition_node E i then class_instances ts else {})"
  by (simp add: call_loop_def set_get_foldl_call_iteration)

lemma set_get_transfer:
  "set (get_runtime_terms (transfer E s (v, t)) m) =
     (if m = definition_node E t
      then set (get_runtime_terms s m) \<union> set (get_runtime_terms s (definition_node E v))
      else set (get_runtime_terms s m))"
  by (simp add: transfer_def update_runtime_terms_of_definition_node_def
      get_runtime_terms_of_definition_node_def set_get_update_runtime_terms)

lemma transfer_grows:
  "set (get_runtime_terms s m) \<subseteq> set (get_runtime_terms (transfer E s vt) m)"
  by (cases vt) (auto simp: set_get_transfer)

lemma foldl_transfer_grows:
  "set (get_runtime_terms s m) \<subseteq> set (get_runtime_terms (foldl (transfer E) s ps) m)"
proof (induction ps arbitrary: s)
  case Nil
  then show ?case by simp
next
  case (Cons p ps)
  have "set (get_runtime_terms s m) \<subseteq> set (get_runtime_terms (transfer E s p) m)"
    by (rule transfer_grows)
  also have "\<dots> \<subseteq> set (get_runtime_terms (foldl (transfer E) (transfer E s p) ps) m)"
    by (rule Cons.IH)
  finally show ?case by simp
qed

lemma callback_grows:
  "set (get_runtime_terms s m) \<subseteq>
     set (get_runtime_terms (handle_local_syntax_directed_typing_constraints_callback ord E n ss s) m)"
proof (cases n)
  case (Call i func lineno)
  then show ?thesis by (simp add: set_get_call_loop)
next
  case (Assign i targets val)
  then show ?thesis by (simp add: foldl_transfer_grows)
next
  case (NamedExpr i t v)
  then show ?thesis by (simp add: transfer_grows)
next
  case (AnnAssign i t a v)
  then show ?thesis by (cases v) (simp_all add: transfer_grows)
qed (auto simp: update_runtime_terms_of_definition_node_from_runtime_class_def
       update_runtime_terms_of_definition_node_def set_get_update_runtime_terms
       split: option.splits)

lemma pass_grows:
  "set (get_runtime_terms s m) \<subseteq>
     set (get_runtime_terms (modified_handle_local_syntax_directed_typing_constraints ord E visits s) m)"
  unfolding modified_handle_local_syntax_directed_typing_constraints_def
proof (induction visits arbitrary: s)
  case Nil
  then show ?case by simp
next
  case (Cons v vs)
  obtain n ss where v: "v = (n, ss)" by (cases v)
  have "set (get_runtime_terms s m) \<subseteq>
      set (get_runtime_terms (handle_local_syntax_directed_typing_constraints_callback ord E n ss s) m)"
    by (rule callback_grows)
  also have "\<dots> \<subseteq> set (get_runtime_terms
      (foldl (\<lambda>s' (n, ss). handle_local_syntax_directed_typing_constraints_callback ord E n ss s')
         (handle_local_syntax_directed_typing_constraints_callback ord E n ss s) vs) m)"
    by (rule Cons.IH)
  finally show ?case by (simp add: v)
qed

declare str_nat.simps [simp del]

lemma pairwise_rev_snoc:
  "itertools_pairwise (rev ((ts @ [t]) @ [v])) = (v, t) # itertools_pairwise (rev (ts @ [t]))"
  by simp

lemma snd_pairwise_tl: "p \<in> set (itertools_pairwise xs) \<Longrightarrow> snd p \<in> set (tl xs)"
  by (induction xs rule: itertools_pairwise.induct) auto

lemma fst_pairwise: "p \<in> set (itertools_pairwise xs) \<Longrightarrow> fst p \<in> set xs"
  by (induction xs rule: itertools_pairwise.induct) auto

lemma snd_pairwise_targets:
  "(a, b) \<in> set (itertools_pairwise (v # rev ts)) \<Longrightarrow> b \<in> set ts"
  using snd_pairwise_tl [of "(a, b)" "v # rev ts"] by simp

lemma assign_value_reaches:
  "set (get_runtime_terms s (definition_node E v)) \<subseteq>
     set (get_runtime_terms (foldl (transfer E) s (itertools_pairwise (v # rev ts))) (definition_node E t))"
  if "t \<in> set ts"
  using that
proof (induction ts arbitrary: s v t rule: rev_induct)
  case Nil
  then show ?case by simp
next
  case (snoc x xs)
  let ?s = "transfer E s (v, x)"
  have step: "set (get_runtime_terms s (definition_node E v)) \<subseteq>
      set (get_runtime_terms ?s (definition_node E x))"
    by (simp add: set_get_transfer)
  show ?case
  proof (cases "t \<in> set xs")
    case True
    have "set (get_runtime_terms ?s (definition_node E x)) \<subseteq>
        set (get_runtime_terms (foldl (transfer E) ?s (itertools_pairwise (x # rev xs))) (definition_node E t))"
      by (rule snoc.IH [OF True])
    with step show ?thesis by simp
  next
    case False
    with snoc.prems have "t = x" by simp
    have "set (get_runtime_terms ?s (definition_node E x)) \<subseteq>
        set (get_runtime_terms (foldl (transfer E) ?s (itertools_pairwise (x # rev xs))) (definition_node E x))"
      by (rule foldl_transfer_grows)
    with step \<open>t = x\<close> show ?thesis by simp
  qed
qed

lemma foldl_transfer_frame:
  "d \<notin> definition_node E ` snd ` set ps \<Longrightarrow>
     get_runtime_terms (foldl (transfer E) s ps) d = get_runtime_terms s d"
proof (induction ps arbitrary: s)
  case Nil
  then show ?case by simp
next
  case (Cons p ps)
  then have "get_runtime_terms (transfer E s p) d = get_runtime_terms s d"
    by (cases p)
       (auto simp: transfer_def update_runtime_terms_of_definition_node_def
          get_update_runtime_terms)
  with Cons show ?case by simp
qed

lemma get_call_iteration_frame:
  "d \<noteq> definition_node E i \<Longrightarrow>
     get_runtime_terms (snd (call_iteration E i c vs t)) d = get_runtime_terms (snd vs) d"
  by (cases t)
     (auto simp: call_iteration_def Let_def update_runtime_terms_of_definition_node_def
        get_update_runtime_terms)

lemma get_call_loop_frame:
  "d \<noteq> definition_node E i \<Longrightarrow>
     get_runtime_terms (snd (call_loop E i c ts s)) d = get_runtime_terms s d"
proof -
  assume d: "d \<noteq> definition_node E i"
  have "get_runtime_terms (snd (foldl (call_iteration E i c) vs ts)) d
      = get_runtime_terms (snd vs) d" for vs
    by (induction ts arbitrary: vs) (simp_all add: get_call_iteration_frame [OF d])
  then show ?thesis by (simp add: call_loop_def)
qed

lemma callback_frame:
  assumes "d \<notin> definition_node E ` set (updated_nodes E n)"
  shows "get_runtime_terms (handle_local_syntax_directed_typing_constraints_callback ord E n ss s) d
           = get_runtime_terms s d"
proof (cases n)
  case (Call i func lineno)
  with assms show ?thesis by (simp add: get_call_loop_frame)
next
  case (Assign i targets val)
  have "snd ` set (itertools_pairwise (rev (targets @ [val]))) \<subseteq> set targets"
    by (auto dest: snd_pairwise_targets)
  with assms Assign have "d \<notin> definition_node E ` snd ` set (itertools_pairwise (rev (targets @ [val])))"
    by auto
  with Assign show ?thesis by (simp add: foldl_transfer_frame)
next
  case (NamedExpr i t v)
  with assms show ?thesis
    by (simp add: transfer_def update_runtime_terms_of_definition_node_def get_update_runtime_terms)
next
  case (AnnAssign i t a v)
  with assms show ?thesis
    by (cases v)
       (simp_all add: transfer_def update_runtime_terms_of_definition_node_def
          get_update_runtime_terms)
qed (use assms in \<open>auto simp: update_runtime_terms_of_definition_node_from_runtime_class_def
       update_runtime_terms_of_definition_node_def get_update_runtime_terms
       split: option.splits\<close>)

lemma pass_instance_rule:
  assumes rule: "instance_rule E n c"
    and only: "\<forall>(m, ss') \<in> set visits.
        definition_node E (node_id n) \<in> definition_node E ` set (updated_nodes E m) \<longrightarrow> m = n"
    and start: "set (get_runtime_terms s (definition_node E (node_id n))) \<subseteq> {Instance c}"
  shows "set (get_runtime_terms
            (modified_handle_local_syntax_directed_typing_constraints ord E visits s)
            (definition_node E (node_id n))) =
         (if n \<in> fst ` set visits then {Instance c}
          else set (get_runtime_terms s (definition_node E (node_id n))))"
  using only start
  unfolding modified_handle_local_syntax_directed_typing_constraints_def
proof (induction visits arbitrary: s rule: rev_induct)
  case Nil
  then show ?case by simp
next
  case (snoc v vs)
  obtain m ss' where v: "v = (m, ss')" by (cases v)
  let ?d = "definition_node E (node_id n)"
  let ?s = "foldl (\<lambda>s' (n, ss). handle_local_syntax_directed_typing_constraints_callback ord E n ss s') s vs"
  have IH: "set (get_runtime_terms ?s ?d) =
      (if n \<in> fst ` set vs then {Instance c} else set (get_runtime_terms s ?d))"
    using snoc.IH [of s] snoc.prems by auto
  then have sub: "set (get_runtime_terms ?s ?d) \<subseteq> {Instance c}"
    using snoc.prems(2) by (auto split: if_splits)
  show ?case
  proof (cases "m = n")
    case True
    have "set (get_runtime_terms
        (handle_local_syntax_directed_typing_constraints_callback ord E n ss' ?s) ?d) =
        set (get_runtime_terms ?s ?d) \<union> {Instance c}"
      using rule
      by (simp add: instance_rule_def update_runtime_terms_of_definition_node_from_runtime_class_def
          update_runtime_terms_of_definition_node_def set_get_update_runtime_terms)
    with sub True v show ?thesis by auto
  next
    case False
    with snoc.prems(1) v have "?d \<notin> definition_node E ` set (updated_nodes E m)"
      by auto
    then have "get_runtime_terms
        (handle_local_syntax_directed_typing_constraints_callback ord E m ss' ?s) ?d =
        get_runtime_terms ?s ?d"
      by (rule callback_frame)
    with IH False v show ?thesis by auto
  qed
qed

lemma stdout_print_call_site:
  "stdout (print_call_site c v s) = stdout s @ printed_for c v"
  by (simp add: print_call_site_def printed_for_def no_terms_def split: option.splits)

lemma printed_for_initial [simp]: "printed_for c initial_call_vars = []"
  by (simp add: printed_for_def print_call_site_def initial_call_vars_def no_terms_def)

lemma stdout_update_of_definition_node [simp]:
  "stdout (update_runtime_terms_of_definition_node E i ts s) = stdout s"
  by (simp add: update_runtime_terms_of_definition_node_def)

lemma stdout_call_iteration:
  "stdout (snd (call_iteration E i c vs t)) =
     stdout (snd vs) @ printed_for c (assign_callee E t (fst vs))"
  by (cases t) (simp_all add: call_iteration_def Let_def stdout_print_call_site)

lemma fst_call_iteration [simp]:
  "fst (call_iteration E i c vs t) = assign_callee E t (fst vs)"
  by (simp add: call_iteration_def Let_def)

text \<open>A branch either assigns all the variables, whatever they held, or leaves them.\<close>

lemma method_callee_cases:
  "method_callee E cls f v = v \<and> method_callee E cls f initial_call_vars = initial_call_vars
   \<or> method_callee E cls f v = method_callee E cls f initial_call_vars"
  by (cases f) (auto split: option.splits)

lemma assign_callee_cases:
  "assign_callee E t v = v \<and> assign_callee E t initial_call_vars = initial_call_vars
   \<or> assign_callee E t v = assign_callee E t initial_call_vars"
proof (cases t)
  case (Function f)
  then show ?thesis by (cases f) (auto split: option.splits)
next
  case (UnboundMethod cls f)
  then show ?thesis using method_callee_cases [of E cls f v] by simp
next
  case (BoundMethod cls f)
  then show ?thesis using method_callee_cases [of E cls f v] by simp
qed (auto simp: Let_def split: option.splits)

lemma set_stdout_foldl_call_iteration:
  assumes "set (printed_for c (fst vs)) \<subseteq> set (stdout (snd vs))"
  shows "set (stdout (snd (foldl (call_iteration E i c) vs ts))) =
           set (stdout (snd vs)) \<union> (\<Union>t \<in> set ts. set (own_record E c t))"
  using assms
proof (induction ts arbitrary: vs)
  case Nil
  then show ?case by simp
next
  case (Cons t ts)
  let ?vs = "call_iteration E i c vs t"
  have out: "stdout (snd ?vs) = stdout (snd vs) @ printed_for c (fst ?vs)"
    by (simp add: stdout_call_iteration)
  then have inv: "set (printed_for c (fst ?vs)) \<subseteq> set (stdout (snd ?vs))" by simp
  have step: "set (stdout (snd ?vs)) = set (stdout (snd vs)) \<union> set (own_record E c t)"
    using assign_callee_cases [of E t "fst vs"] Cons.prems out
    by (auto simp: own_record_def)
  show ?case
    unfolding foldl_Cons Cons.IH [OF inv] step by auto
qed

lemma set_stdout_call_loop:
  "set (stdout (snd (call_loop E i c ts s))) =
     set (stdout s) \<union> (\<Union>t \<in> set ts. set (own_record E c t))"
  unfolding call_loop_def
  by (rule set_stdout_foldl_call_iteration [where vs = "(initial_call_vars, s)", simplified])

lemma same_sets_update:
  assumes "same_sets s1 s2" "set ts1 = set ts2"
  shows "same_sets (update_runtime_terms_of_definition_node E i ts1 s1)
           (update_runtime_terms_of_definition_node E i ts2 s2)"
  using assms
  by (simp add: same_sets_def update_runtime_terms_of_definition_node_def
      set_get_update_runtime_terms)

lemma same_sets_transfer:
  assumes "same_sets s1 s2"
  shows "same_sets (transfer E s1 p) (transfer E s2 p)"
  unfolding transfer_def
  by (rule same_sets_update [OF assms])
     (use assms in \<open>simp add: same_sets_def get_runtime_terms_of_definition_node_def\<close>)

lemma same_sets_foldl_transfer:
  "same_sets s1 s2 \<Longrightarrow> same_sets (foldl (transfer E) s1 ps) (foldl (transfer E) s2 ps)"
  by (induction ps arbitrary: s1 s2) (simp_all add: same_sets_transfer)

lemma same_sets_call_loop:
  assumes "same_sets s1 s2" "set ts1 = set ts2"
  shows "same_sets (snd (call_loop E i c ts1 s1)) (snd (call_loop E i c ts2 s2))"
  using assms
  by (simp add: same_sets_def set_get_call_loop set_stdout_call_loop class_instances_def)

lemma set_map_filter: "set (List.map_filter f xs) = {y. \<exists>x \<in> set xs. f x = Some y}"
  by (induction xs) (auto simp: List.map_filter_def)

lemma same_sets_callback:
  assumes o1: "is_iteration_order ord1" and o2: "is_iteration_order ord2"
    and s: "same_sets s1 s2"
  shows "same_sets (handle_local_syntax_directed_typing_constraints_callback ord1 E n ss s1)
           (handle_local_syntax_directed_typing_constraints_callback ord2 E n ss s2)"
proof -
  have terms: "set (ord1 (get_runtime_terms_of_definition_node E s1 k)) =
      set (ord2 (get_runtime_terms_of_definition_node E s2 k))" for k
    using o1 o2 s
    by (simp add: is_iteration_order_def same_sets_def get_runtime_terms_of_definition_node_def)
  show ?thesis
  proof (cases n)
    case (Call i func lineno)
    then show ?thesis by (simp add: same_sets_call_loop [OF s terms])
  next
    case (Attribute i val attr)
    have "set (List.map_filter (\<lambda>t. get_attribute_access_result E t attr)
              (ord1 (get_runtime_terms_of_definition_node E s1 val))) =
          set (List.map_filter (\<lambda>t. get_attribute_access_result E t attr)
              (ord2 (get_runtime_terms_of_definition_node E s2 val)))"
      by (simp add: set_map_filter terms)
    with Attribute show ?thesis by (simp add: same_sets_update [OF s])
  next
    case (Assign i targets val)
    then show ?thesis by (simp add: same_sets_foldl_transfer [OF s])
  next
    case (AnnAssign i t a v)
    then show ?thesis by (cases v) (simp_all add: s same_sets_transfer)
  qed (simp_all add: s same_sets_transfer same_sets_update
        update_runtime_terms_of_definition_node_from_runtime_class_def split: option.splits)
qed

lemma same_sets_pass:
  assumes o1: "is_iteration_order ord1" and o2: "is_iteration_order ord2"
  shows "same_sets s1 s2 \<Longrightarrow>
    same_sets (modified_handle_local_syntax_directed_typing_constraints ord1 E visits s1)
      (modified_handle_local_syntax_directed_typing_constraints ord2 E visits s2)"
  unfolding modified_handle_local_syntax_directed_typing_constraints_def
proof (induction visits arbitrary: s1 s2)
  case Nil
  then show ?case by simp
next
  case (Cons v vs)
  obtain n ss where v: "v = (n, ss)" by (cases v)
  have "same_sets (handle_local_syntax_directed_typing_constraints_callback ord1 E n ss s1)
      (handle_local_syntax_directed_typing_constraints_callback ord2 E n ss s2)"
    by (rule same_sets_callback [OF o1 o2 Cons.prems])
  from Cons.IH [OF this] show ?case by (simp add: v)
qed

lemma singleton_order:
  assumes "is_iteration_order ord" "set xs = {t}"
  shows "ord xs = [t]"
proof -
  from assms have s: "set (ord xs) = {t}" and d: "distinct (ord xs)"
    by (simp_all add: is_iteration_order_def)
  then show ?thesis
    by (cases "ord xs") (auto simp: subset_singleton_iff dest!: subset_singletonD)
qed

lemma call_loop_single:
  "call_loop E i c [t] s = call_iteration E i c (initial_call_vars, s) t"
  by (simp add: call_loop_def)

lemma is_iteration_order_remdups: "is_iteration_order remdups"
  by (simp add: is_iteration_order_def)

lemma is_iteration_order_rev_remdups: "is_iteration_order (\<lambda>xs. rev (remdups xs))"
  by (simp add: is_iteration_order_def)

lemma truthy_Some [simp]: "truthy (Some s) = (s \<noteq> [])"
  by simp

lemma own_record_RuntimeClass:
  "own_record E c (RuntimeClass cls) =
     (if is_known E (get_unwrapped_constructor E cls) \<and> cls_module cls \<noteq> [] \<and> cls_name cls \<noteq> []
         \<and> fn_name (get_unwrapped_constructor E cls) \<noteq> []
      then [record_of c (cls_module cls) (cls_name cls) (fn_name (get_unwrapped_constructor E cls))
              (get_unwrapped_constructor E cls)]
      else [])"
  by (simp add: own_record_def printed_for_def print_call_site_def Let_def set_callee_def
      initial_call_vars_def no_terms_def)

lemma printed_for_caller:
  "r \<in> set (printed_for c v) \<Longrightarrow>
     caller_module r = caller_module_name c \<and> caller_function_name r = caller_function_name_var c
     \<and> call_line r = call_line_var c \<and> caller_function_start r = caller_function_start_var c
     \<and> caller_function_end r = caller_function_end_var c"
  by (auto simp: printed_for_def print_call_site_def record_of_def no_terms_def
      split: if_splits option.splits)

lemma stdout_foldl_call_iteration_caller:
  "\<exists>new. stdout (snd (foldl (call_iteration E i c) vs ts)) = stdout (snd vs) @ new
     \<and> (\<forall>r \<in> set new.
          caller_module r = caller_module_name c \<and> caller_function_name r = caller_function_name_var c
          \<and> call_line r = call_line_var c \<and> caller_function_start r = caller_function_start_var c
          \<and> caller_function_end r = caller_function_end_var c)"
proof (induction ts arbitrary: vs)
  case Nil
  then show ?case by simp
next
  case (Cons t ts)
  let ?vs = "call_iteration E i c vs t"
  from Cons.IH [of ?vs] obtain new where
    new: "stdout (snd (foldl (call_iteration E i c) ?vs ts)) = stdout (snd ?vs) @ new"
    and all: "\<forall>r \<in> set new.
          caller_module r = caller_module_name c \<and> caller_function_name r = caller_function_name_var c
          \<and> call_line r = call_line_var c \<and> caller_function_start r = caller_function_start_var c
          \<and> caller_function_end r = caller_function_end_var c"
    by blast
  let ?new = "printed_for c (assign_callee E t (fst vs)) @ new"
  have "stdout (snd (foldl (call_iteration E i c) vs (t # ts))) = stdout (snd vs) @ ?new"
    by (simp add: new stdout_call_iteration)
  moreover have "\<forall>r \<in> set ?new.
          caller_module r = caller_module_name c \<and> caller_function_name r = caller_function_name_var c
          \<and> call_line r = call_line_var c \<and> caller_function_start r = caller_function_start_var c
          \<and> caller_function_end r = caller_function_end_var c"
    using all printed_for_caller [of _ c "assign_callee E t (fst vs)"] by auto
  ultimately show ?case by blast
qed

lemma update_fresh: "k \<notin> fst ` set al \<Longrightarrow> AList.update k v al = al @ [(k, v)]"
  by (induction al) auto

lemma import_modules_caught:
  assumes "distinct (map fst table)"
    and "fst ` set (module_name_to_module_node st) \<inter> fst ` set table = {}"
    and "\<forall>(name, file_path) \<in> set table. \<not> skipped file_path \<longrightarrow>
           (case try_import P I name file_path of Inl e \<Rightarrow> caught e | Inr r \<Rightarrow> True)"
  shows "\<exists>st'. import_modules P I table st = Inr st'
     \<and> module_name_to_module_node st' = module_name_to_module_node st @ loaded_nodes P I table
     \<and> logged st' = logged st @ failed_names P I table"
  using assms
proof (induction table arbitrary: st)
  case Nil
  then show ?case by (simp add: loaded_nodes_def failed_names_def List.map_filter_def)
next
  case (Cons p table)
  obtain name file_path where p: "p = (name, file_path)" by (cases p)
  have d: "distinct (map fst table)" using Cons.prems(1) by simp
  have rest: "\<forall>(name, file_path) \<in> set table. \<not> skipped file_path \<longrightarrow>
           (case try_import P I name file_path of Inl e \<Rightarrow> caught e | Inr r \<Rightarrow> True)"
    using Cons.prems(3) by simp
  have fresh: "name \<notin> fst ` set (module_name_to_module_node st)" "name \<notin> fst ` set table"
    using Cons.prems(1,2) p by auto
  show ?case
  proof (cases "skipped file_path")
    case True
    have "fst ` set (module_name_to_module_node st) \<inter> fst ` set table = {}"
      using Cons.prems(2) by auto
    from Cons.IH [OF d this rest] True p show ?thesis
      by (simp add: loaded_nodes_def failed_names_def List.map_filter_def)
  next
    case False
    show ?thesis
    proof (cases "try_import P I name file_path")
      case (Inl e)
      with Cons.prems(3) p False have c: "caught e" by simp
      let ?st = "st\<lparr>logged := logged st @ [name]\<rparr>"
      have "fst ` set (module_name_to_module_node ?st) \<inter> fst ` set table = {}"
        using Cons.prems(2) by auto
      from Cons.IH [OF d this rest] Inl c False p show ?thesis
        by (simp add: loaded_nodes_def failed_names_def List.map_filter_def)
    next
      case (Inr r)
      obtain module_node module where r: "r = (module_node, module)" by (cases r)
      let ?st = "st\<lparr>module_name_to_module_node :=
                     AList.update name module_node (module_name_to_module_node st),
                   module_name_to_module :=
                     AList.update name module (module_name_to_module st)\<rparr>"
      have upd: "module_name_to_module_node ?st = module_name_to_module_node st @ [(name, module_node)]"
        using fresh(1) by (simp add: update_fresh)
      then have "fst ` set (module_name_to_module_node ?st) \<inter> fst ` set table = {}"
        using Cons.prems(2) fresh(2) by auto
      from Cons.IH [OF d this rest] Inr r False p upd show ?thesis
        by (simp add: loaded_nodes_def failed_names_def List.map_filter_def)
    qed
  qed
qed

lemma stdout_transfer [simp]: "stdout (transfer E s p) = stdout s"
  by (simp add: transfer_def)

lemmas engine_defs =
  get_runtime_terms_def update_runtime_terms_def definition_node_def
  get_runtime_terms_of_definition_node_def update_runtime_terms_of_definition_node_def
  update_runtime_terms_of_definition_node_from_runtime_class_def
  call_loop_def call_iteration_def print_call_site_def record_of_def caller_of_def
  set_callee_def initial_call_vars_def is_known_def transfer_def
  modified_handle_local_syntax_directed_typing_constraints_def
  List.union_def List.insert_def Let_def builtin_def

lemmas example_defs =
  example_env_def example_visits_def bar_scope_def baz_scope_def lambda_scope_def
  ambiguous_state_def class_state_def instance_state_def foo_in_baz_def
  foo_fn_def K_init_def object_init_def no_terms_def

lemma method_callee_bound:
  "(callee_function v = None \<longrightarrow> callee_module_name v = None) \<Longrightarrow>
     (callee_function (method_callee E cls f v) = None \<longrightarrow>
        callee_module_name (method_callee E cls f v) = None)"
  by (cases f) (auto simp: set_callee_def split: option.splits)

lemma assign_callee_bound:
  assumes "callee_function v = None \<longrightarrow> callee_module_name v = None"
  shows "callee_function (assign_callee E t v) = None \<longrightarrow>
        callee_module_name (assign_callee E t v) = None"
proof (cases t)
  case (Function f)
  with assms show ?thesis
    by (cases f) (auto simp: set_callee_def split: option.splits)
next
  case (UnboundMethod cls f)
  then show ?thesis using method_callee_bound [OF assms, of E cls f] by simp
next
  case (BoundMethod cls f)
  then show ?thesis using method_callee_bound [OF assms, of E cls f] by simp
qed (use assms in \<open>auto simp: set_callee_def Let_def split: option.splits\<close>)

lemma foldl_call_iteration_bound:
  "(callee_function (fst vs) = None \<longrightarrow> callee_module_name (fst vs) = None) \<Longrightarrow>
     (callee_function (fst (foldl (call_iteration E i c) vs ts)) = None \<longrightarrow>
        callee_module_name (fst (foldl (call_iteration E i c) vs ts)) = None)"
proof (induction ts arbitrary: vs)
  case Nil
  then show ?case by simp
next
  case (Cons t ts)
  have "callee_function (fst (call_iteration E i c vs t)) = None \<longrightarrow>
      callee_module_name (fst (call_iteration E i c vs t)) = None"
    using assign_callee_bound [OF Cons.prems] by simp
  from Cons.IH [OF this] show ?case by simp
qed

text \<open>
  Whenever the loop of the call branch has set the callee's module name, it has bound
  \<^verbatim>\<open>callee_function\<close>: the \<^verbatim>\<open>print\<close> never reads an unbound variable.
\<close>

lemma call_vars_bound:
  "callee_function (fst (call_loop E i c ts s)) = None \<Longrightarrow>
     callee_module_name (fst (call_loop E i c ts s)) = None"
  using foldl_call_iteration_bound [of "(initial_call_vars, s)" E i c ts]
  by (simp add: call_loop_def initial_call_vars_def)

lemma same_sets_update_runtime_terms:
  assumes "same_sets s1 s2" "set ts1 = set ts2"
  shows "same_sets (update_runtime_terms n ts1 s1) (update_runtime_terms n ts2 s2)"
  using assms by (simp add: same_sets_def set_get_update_runtime_terms)

lemma same_sets_seed_placeholders:
  "same_sets s1 s2 \<Longrightarrow> same_sets (seed_placeholders ps s1) (seed_placeholders ps s2)"
  unfolding seed_placeholders_def
proof (induction ps arbitrary: s1 s2)
  case Nil
  then show ?case by simp
next
  case (Cons p ps)
  obtain n ts where p: "p = (n, ts)" by (cases p)
  have "same_sets (update_runtime_terms n ts s1) (update_runtime_terms n ts s2)"
    by (rule same_sets_update_runtime_terms [OF Cons.prems refl])
  from Cons.IH [OF this] show ?case by (simp add: p)
qed

lemma end_alike_handle_module:
  assumes "is_iteration_order ord1" "is_iteration_order ord2" "same_sets s1 s2"
  shows "end_alike (handle_module ord1 prepare name module_node s1)
           (handle_module ord2 prepare name module_node s2)"
proof (cases "prepare name module_node")
  case (Inl e)
  then show ?thesis by (simp add: handle_module_def end_alike_def)
next
  case (Inr r)
  obtain ps E visits where r: "r = (ps, E, visits)" by (cases r)
  have "same_sets
      (modified_handle_local_syntax_directed_typing_constraints ord1 E visits (seed_placeholders ps s1))
      (modified_handle_local_syntax_directed_typing_constraints ord2 E visits (seed_placeholders ps s2))"
    by (rule same_sets_pass [OF assms(1,2) same_sets_seed_placeholders [OF assms(3)]])
  with Inr r show ?thesis by (simp add: handle_module_def end_alike_def)
qed

lemma handle_modules_alike:
  assumes o1: "is_iteration_order ord1" and o2: "is_iteration_order ord2"
  shows "same_sets s1 s2 \<Longrightarrow>
     end_alike (handle_modules (handle_module ord1 prepare) ms s1)
       (handle_modules (handle_module ord2 prepare) ms s2)
     \<and> set (printed_by_modules ord1 prepare ms s1) = set (printed_by_modules ord2 prepare ms s2)"
proof (induction ms arbitrary: s1 s2)
  case Nil
  then show ?case by (simp add: end_alike_def same_sets_def)
next
  case (Cons m ms)
  obtain name module_node where m: "m = (name, module_node)" by (cases m)
  note a = end_alike_handle_module [OF o1 o2 Cons.prems, of prepare name module_node]
  show ?case
  proof (cases "handle_module ord1 prepare name module_node s1")
    case (Inl e)
    with a have "handle_module ord2 prepare name module_node s2 = Inl e"
      by (simp add: end_alike_def)
    with Inl m Cons.prems show ?thesis by (simp add: end_alike_def same_sets_def)
  next
    case (Inr t1)
    with a obtain t2 where t2: "handle_module ord2 prepare name module_node s2 = Inr t2"
      and same: "same_sets t1 t2"
      by (auto simp: end_alike_def split: sum.splits)
    from Cons.IH [OF same] Inr t2 m show ?thesis by simp
  qed
qed

lemma printed_by_modules_stdout:
  "handle_modules (handle_module ord prepare) ms s = Inr s' \<Longrightarrow>
     printed_by_modules ord prepare ms s = stdout s'"
proof (induction ms arbitrary: s)
  case Nil
  then show ?case by simp
next
  case (Cons m ms)
  obtain name module_node where m: "m = (name, module_node)" by (cases m)
  from Cons.prems m obtain t where t: "handle_module ord prepare name module_node s = Inr t"
    and rest: "handle_modules (handle_module ord prepare) ms t = Inr s'"
    by (auto split: sum.splits)
  from Cons.IH [OF rest] t m show ?case by simp
qed

lemmas run_defs =
  main_def printed_by_main_def handle_module_def seed_placeholders_def tree_prepare_def
  m2_env_def m2_visits_def skipped_def endswith_def try_import_def example_parse_def
  example_import_def no_modules_def foo_in_bar_def foo_in_baz_of_m2_def two_modules_def
  three_modules_def

section \<open>The claims\<close>

text \<open>
  C1. The claim: every candidate of a call node that resolves prints one record of its own, a
  candidate that does not resolve prints none, and what is printed for one candidate depends
  neither on the other candidates nor on the iteration order.
  The code sets \<^verbatim>\<open>callee_module_name\<close>, \<^verbatim>\<open>callee_class_name\<close> and
  \<^verbatim>\<open>callee_function_name\<close> once before the loop and tests them in every iteration, so an
  iteration whose candidate does not resolve prints the record of the last candidate that did.
  Here the callee of \<^verbatim>\<open>g(1)\<close> in \<^verbatim>\<open>baz\<close> has the term set \<open>{foo, Instance(C)}\<close>, \<open>foo\<close> a
  mapped function and \<open>C\<close> a class without \<^verbatim>\<open>__call__\<close>: iterated as \<open>foo, Instance(C)\<close> the
  call prints the record of \<open>foo\<close> twice, iterated the other way round once, and
  \<open>Instance(C)\<close> alone prints nothing.
\<close>

theorem stale_call_site_record:
  "stdout (handle_local_syntax_directed_typing_constraints_callback remdups example_env
       (Call 8 7 (Some 9)) baz_scope ambiguous_state) = [foo_in_baz, foo_in_baz]
   \<and> stdout (handle_local_syntax_directed_typing_constraints_callback (\<lambda>xs. rev (remdups xs))
       example_env (Call 8 7 (Some 9)) baz_scope ambiguous_state) = [foo_in_baz]
   \<and> own_record example_env (caller_of example_env (Some 9) baz_scope)
        (Instance (PyClass ''m'' ''C'')) = []"
  by (simp add: engine_defs example_defs own_record_def printed_for_def)

text \<open>
  C2. Two runs of the whole analysis over the same source tree (the same module table, the
  same files and imports, and for every module the same placeholders, bridge tables,
  use-define mapping and visit sequence) write the same set of call-site records, whatever
  the orders in which the two runs iterate over sets of runtime terms: the sets printed by
  the time the run ends, normally or with an exception, are equal; one run ends with an
  exception exactly when the other ends with the same one; and when both end normally every
  node has the same term set in both. The same holds for the loop over any list of modules
  from any state, and for one pass of the engine.
\<close>

theorem determinism:
  assumes "is_iteration_order ord1" and "is_iteration_order ord2"
  shows "set (printed_by_main ord1 parse_file import_module prepare table)
         = set (printed_by_main ord2 parse_file import_module prepare table)
       \<and> (main ord1 parse_file import_module prepare table = Inl e
            \<longleftrightarrow> main ord2 parse_file import_module prepare table = Inl e)
       \<and> (main ord1 parse_file import_module prepare table = Inr s1
            \<and> main ord2 parse_file import_module prepare table = Inr s2
          \<longrightarrow> stdout s1 = printed_by_main ord1 parse_file import_module prepare table
            \<and> stdout s2 = printed_by_main ord2 parse_file import_module prepare table
            \<and> set (stdout s1) = set (stdout s2)
            \<and> (\<forall>n. set (get_runtime_terms s1 n) = set (get_runtime_terms s2 n)))
       \<and> set (printed_by_modules ord1 prepare modules s)
         = set (printed_by_modules ord2 prepare modules s)
       \<and> set (stdout (modified_handle_local_syntax_directed_typing_constraints ord1 E visits s)) =
         set (stdout (modified_handle_local_syntax_directed_typing_constraints ord2 E visits s))
       \<and> (\<forall>n. set (get_runtime_terms
                (modified_handle_local_syntax_directed_typing_constraints ord1 E visits s) n) =
              set (get_runtime_terms
                (modified_handle_local_syntax_directed_typing_constraints ord2 E visits s) n))"
proof -
  have refl: "same_sets t t" for t by (simp add: same_sets_def)
  note hm = handle_modules_alike [OF assms refl, of prepare]
  have pass: "same_sets (modified_handle_local_syntax_directed_typing_constraints ord1 E visits s)
      (modified_handle_local_syntax_directed_typing_constraints ord2 E visits s)"
    by (rule same_sets_pass [OF assms refl])
  show ?thesis
  proof (cases "import_modules parse_file import_module table no_modules")
    case (Inl x)
    with hm [of modules s] pass show ?thesis
      by (simp add: main_def printed_by_main_def same_sets_def)
  next
    case (Inr st)
    let ?ms = "module_name_to_module_node st"
    from hm [of ?ms no_terms]
    have alike: "end_alike (handle_modules (handle_module ord1 prepare) ?ms no_terms)
        (handle_modules (handle_module ord2 prepare) ?ms no_terms)"
      and printed: "set (printed_by_modules ord1 prepare ?ms no_terms)
        = set (printed_by_modules ord2 prepare ?ms no_terms)"
      by simp_all
    have m1: "main ord1 parse_file import_module prepare table
        = handle_modules (handle_module ord1 prepare) ?ms no_terms"
      and m2: "main ord2 parse_file import_module prepare table
        = handle_modules (handle_module ord2 prepare) ?ms no_terms"
      and p1: "printed_by_main ord1 parse_file import_module prepare table
        = printed_by_modules ord1 prepare ?ms no_terms"
      and p2: "printed_by_main ord2 parse_file import_module prepare table
        = printed_by_modules ord2 prepare ?ms no_terms"
      using Inr by (simp_all add: main_def printed_by_main_def)
    have exc: "main ord1 parse_file import_module prepare table = Inl e
            \<longleftrightarrow> main ord2 parse_file import_module prepare table = Inl e"
      using alike unfolding m1 m2 by (auto simp: end_alike_def split: sum.splits)
    have ok: "main ord1 parse_file import_module prepare table = Inr s1
            \<and> main ord2 parse_file import_module prepare table = Inr s2
          \<longrightarrow> stdout s1 = printed_by_main ord1 parse_file import_module prepare table
            \<and> stdout s2 = printed_by_main ord2 parse_file import_module prepare table
            \<and> set (stdout s1) = set (stdout s2)
            \<and> (\<forall>n. set (get_runtime_terms s1 n) = set (get_runtime_terms s2 n))"
      using alike printed_by_modules_stdout [of ord1 prepare ?ms no_terms s1]
        printed_by_modules_stdout [of ord2 prepare ?ms no_terms s2]
      unfolding m1 m2 p1 p2 by (auto simp: end_alike_def same_sets_def)
    from printed exc ok hm [of modules s] pass show ?thesis
      unfolding p1 p2 by (simp add: same_sets_def)
  qed
qed

text \<open>
  The source tree of the three modules under two iteration orders: module \<open>m3\<close> ends both
  runs with the same exception, after the same set of records has been printed (the lines
  differ as lists); without \<open>m3\<close> both runs end normally with these records.
\<close>

theorem determinism_witness:
  "printed_by_main remdups example_parse example_import tree_prepare three_modules
     = [foo_in_bar, foo_in_baz_of_m2]
   \<and> printed_by_main (\<lambda>xs. rev (remdups xs)) example_parse example_import tree_prepare three_modules
     = [foo_in_bar, foo_in_baz_of_m2, foo_in_baz_of_m2]
   \<and> set (printed_by_main remdups example_parse example_import tree_prepare three_modules)
     = set (printed_by_main (\<lambda>xs. rev (remdups xs)) example_parse example_import tree_prepare
         three_modules)
   \<and> main remdups example_parse example_import tree_prepare three_modules = Inl NameError
   \<and> main (\<lambda>xs. rev (remdups xs)) example_parse example_import tree_prepare three_modules
     = Inl NameError
   \<and> map_sum id stdout (main remdups example_parse example_import tree_prepare two_modules)
     = Inr [foo_in_bar, foo_in_baz_of_m2]
   \<and> map_sum id stdout
       (main (\<lambda>xs. rev (remdups xs)) example_parse example_import tree_prepare two_modules)
     = Inr [foo_in_bar, foo_in_baz_of_m2, foo_in_baz_of_m2]"
proof -
  let ?rev = "\<lambda>xs. rev (remdups xs)"
  note o1 = is_iteration_order_remdups and o2 = is_iteration_order_rev_remdups
  note three = determinism [OF o1 o2, where parse_file = example_parse
      and import_module = example_import and prepare = tree_prepare and table = three_modules
      and e = NameError]
  have p1: "printed_by_main remdups example_parse example_import tree_prepare three_modules
      = [foo_in_bar, foo_in_baz_of_m2]"
    by (simp add: run_defs engine_defs example_defs)
  have p2: "printed_by_main ?rev example_parse example_import tree_prepare three_modules
      = [foo_in_bar, foo_in_baz_of_m2, foo_in_baz_of_m2]"
    by (simp add: run_defs engine_defs example_defs)
  have e1: "main remdups example_parse example_import tree_prepare three_modules = Inl NameError"
    by (simp add: run_defs engine_defs example_defs)
  from three [THEN conjunct2, THEN conjunct1] e1
  have e2: "main ?rev example_parse example_import tree_prepare three_modules = Inl NameError"
    by blast
  have q1: "printed_by_main remdups example_parse example_import tree_prepare two_modules
      = [foo_in_bar, foo_in_baz_of_m2]"
    by (simp add: run_defs engine_defs example_defs)
  have q2: "printed_by_main ?rev example_parse example_import tree_prepare two_modules
      = [foo_in_bar, foo_in_baz_of_m2, foo_in_baz_of_m2]"
    by (simp add: run_defs engine_defs example_defs)
  have "\<not> isl (main remdups example_parse example_import tree_prepare two_modules)"
    by (simp add: run_defs)
  then obtain s1 where s1: "main remdups example_parse example_import tree_prepare two_modules = Inr s1"
    by (cases "main remdups example_parse example_import tree_prepare two_modules") auto
  have "\<not> isl (main ?rev example_parse example_import tree_prepare two_modules)"
    by (simp add: run_defs)
  then obtain s2 where s2: "main ?rev example_parse example_import tree_prepare two_modules = Inr s2"
    by (cases "main ?rev example_parse example_import tree_prepare two_modules") auto
  note two = determinism [OF o1 o2, where parse_file = example_parse
      and import_module = example_import and prepare = tree_prepare and table = two_modules
      and ?s1.0 = s1 and ?s2.0 = s2, THEN conjunct2, THEN conjunct2, THEN conjunct1, THEN mp,
      OF conjI [OF s1 s2]]
  from two have "stdout s1 = [foo_in_bar, foo_in_baz_of_m2]"
    and "stdout s2 = [foo_in_bar, foo_in_baz_of_m2, foo_in_baz_of_m2]"
    by (simp_all add: q1 q2)
  with s1 s2 have r: "map_sum id stdout (main remdups example_parse example_import tree_prepare two_modules)
     = Inr [foo_in_bar, foo_in_baz_of_m2]"
    "map_sum id stdout
       (main ?rev example_parse example_import tree_prepare two_modules)
     = Inr [foo_in_bar, foo_in_baz_of_m2, foo_in_baz_of_m2]"
    by simp_all
  from three [THEN conjunct1] p1 p2 e1 e2 r show ?thesis by simp
qed

text \<open>
  C3. A literal, display or comprehension node that the pass visits ends with exactly the
  term set \<open>{Instance(t)}\<close>, \<open>t\<close> the type of the constant's value or the class of the
  display: \<^verbatim>\<open>42\<close> gives \<open>Instance(int)\<close>, \<^verbatim>\<open>"x"\<close> gives \<open>Instance(str)\<close>, an f-string
  \<open>Instance(str)\<close>, list, tuple, set and dict displays and comprehensions the instance of
  their class, a generator expression \<open>Instance(Generator)\<close>. The node is an expression that is
  read: it starts without terms and no other visited node has a rule that updates its
  definition node (it is not the target of an assignment).
\<close>

theorem literal_soundness:
  assumes "(n, ss) \<in> set visits"
    and "\<forall>(m, ss') \<in> set visits.
        definition_node E (node_id n) \<in> definition_node E ` set (updated_nodes E m) \<longrightarrow> m = n"
    and "get_runtime_terms_of_definition_node E s (node_id n) = []"
  shows "set (get_runtime_terms_of_definition_node E
            (modified_handle_local_syntax_directed_typing_constraints ord E visits s) (node_id n)) =
         (case n of
            Constant i v \<Rightarrow> {Instance (type_of v)}
          | JoinedStr i \<Rightarrow> {Instance (PyClass ''builtins'' ''str'')}
          | ListNode i \<Rightarrow> {Instance (PyClass ''builtins'' ''list'')}
          | TupleNode i \<Rightarrow> {Instance (PyClass ''builtins'' ''tuple'')}
          | SetNode i \<Rightarrow> {Instance (PyClass ''builtins'' ''set'')}
          | DictNode i \<Rightarrow> {Instance (PyClass ''builtins'' ''dict'')}
          | ListComp i \<Rightarrow> {Instance (PyClass ''builtins'' ''list'')}
          | SetComp i \<Rightarrow> {Instance (PyClass ''builtins'' ''set'')}
          | DictComp i \<Rightarrow> {Instance (PyClass ''builtins'' ''dict'')}
          | GeneratorExp i \<Rightarrow> {Instance (PyClass ''collections.abc'' ''Generator'')}
          | _ \<Rightarrow> set (get_runtime_terms_of_definition_node E
                (modified_handle_local_syntax_directed_typing_constraints ord E visits s) (node_id n)))
         \<and> type_of (IntV 42) = PyClass ''builtins'' ''int''
         \<and> type_of (StrV ''x'') = PyClass ''builtins'' ''str''"
proof -
  have n: "n \<in> fst ` set visits" using assms(1) by force
  have start: "set (get_runtime_terms s (definition_node E (node_id n))) \<subseteq> {Instance c}" for c
    using assms(3) by (simp add: get_runtime_terms_of_definition_node_def)
  have key: "instance_rule E n c \<Longrightarrow>
      set (get_runtime_terms_of_definition_node E
            (modified_handle_local_syntax_directed_typing_constraints ord E visits s) (node_id n))
        = {Instance c}" for c
    using pass_instance_rule [OF _ assms(2) start, of c ord] n
    by (simp add: get_runtime_terms_of_definition_node_def)
  show ?thesis
  proof (cases n)
    case (Constant i v)
    then have "instance_rule E n (type_of v)" by (simp add: instance_rule_def)
    from key [OF this] show ?thesis by (simp add: Constant builtin_def Generator_def)
  next
    case (JoinedStr i)
    then have "instance_rule E n (builtin ''str'')" by (simp add: instance_rule_def)
    from key [OF this] show ?thesis by (simp add: JoinedStr builtin_def Generator_def)
  next
    case (ListNode i)
    then have "instance_rule E n (builtin ''list'')" by (simp add: instance_rule_def)
    from key [OF this] show ?thesis by (simp add: ListNode builtin_def Generator_def)
  next
    case (TupleNode i)
    then have "instance_rule E n (builtin ''tuple'')" by (simp add: instance_rule_def)
    from key [OF this] show ?thesis by (simp add: TupleNode builtin_def Generator_def)
  next
    case (SetNode i)
    then have "instance_rule E n (builtin ''set'')" by (simp add: instance_rule_def)
    from key [OF this] show ?thesis by (simp add: SetNode builtin_def Generator_def)
  next
    case (DictNode i)
    then have "instance_rule E n (builtin ''dict'')" by (simp add: instance_rule_def)
    from key [OF this] show ?thesis by (simp add: DictNode builtin_def Generator_def)
  next
    case (ListComp i)
    then have "instance_rule E n (builtin ''list'')" by (simp add: instance_rule_def)
    from key [OF this] show ?thesis by (simp add: ListComp builtin_def Generator_def)
  next
    case (SetComp i)
    then have "instance_rule E n (builtin ''set'')" by (simp add: instance_rule_def)
    from key [OF this] show ?thesis by (simp add: SetComp builtin_def Generator_def)
  next
    case (GeneratorExp i)
    then have "instance_rule E n (Generator)" by (simp add: instance_rule_def)
    from key [OF this] show ?thesis by (simp add: GeneratorExp builtin_def Generator_def)
  next
    case (DictComp i)
    then have "instance_rule E n (builtin ''dict'')" by (simp add: instance_rule_def)
    from key [OF this] show ?thesis by (simp add: DictComp builtin_def Generator_def)
  qed (simp_all add: builtin_def)
qed

text \<open>
  The constant \<^verbatim>\<open>42\<close> of \<^verbatim>\<open>foo(42)\<close> in the example module.
\<close>

theorem literal_soundness_witness:
  "set (get_runtime_terms_of_definition_node example_env
      (modified_handle_local_syntax_directed_typing_constraints remdups example_env
         example_visits no_terms) 4) = {Instance (PyClass ''builtins'' ''int'')}"
proof -
  have v: "(Constant 4 (IntV 42), bar_scope) \<in> set example_visits"
    by (simp add: example_visits_def)
  have only: "\<forall>(m, ss') \<in> set example_visits.
      definition_node example_env (node_id (Constant 4 (IntV 42)))
        \<in> definition_node example_env ` set (updated_nodes example_env m)
      \<longrightarrow> m = Constant 4 (IntV 42)"
    by (simp add: example_visits_def example_env_def definition_node_def)
  have start: "get_runtime_terms_of_definition_node example_env no_terms
      (node_id (Constant 4 (IntV 42))) = []"
    by (simp add: engine_defs no_terms_def)
  from literal_soundness [OF v only start, of remdups] show ?thesis
    by (simp add: builtin_def)
qed

text \<open>
  C4. An assignment processes its targets from right to left: the rightmost target inherits
  the terms of the value, and the rest of the chain is processed as an assignment of that
  target to the remaining ones, in the state reached. One transfer adds the terms of the
  node on the right to the definition node of the target and changes no other node, so every
  target's definition node holds the value's terms afterwards. For \<^verbatim>\<open>a = b = f()\<close> with the
  call's term set \<open>{Instance(C)}\<close>, the definition nodes of \<open>a\<close> and \<open>b\<close> (which held nothing
  else before) both end with \<open>{Instance(C)}\<close>.
\<close>

theorem assignment_transfer:
  "handle_local_syntax_directed_typing_constraints_callback ord E (Assign i [] v) ss s = s
   \<and> handle_local_syntax_directed_typing_constraints_callback ord E (Assign i (ts @ [t]) v) ss s =
       handle_local_syntax_directed_typing_constraints_callback ord E (Assign i ts t) ss
         (transfer E s (v, t))
   \<and> set (get_runtime_terms (transfer E s (v, t)) m) =
       (if m = definition_node E t
        then set (get_runtime_terms s m) \<union> set (get_runtime_terms_of_definition_node E s v)
        else set (get_runtime_terms s m))
   \<and> (\<forall>t' \<in> set ts. set (get_runtime_terms_of_definition_node E s v) \<subseteq>
         set (get_runtime_terms_of_definition_node E
           (handle_local_syntax_directed_typing_constraints_callback ord E (Assign i ts v) ss s) t'))
   \<and> (set (get_runtime_terms_of_definition_node E s f) = {Instance C}
        \<and> set (get_runtime_terms_of_definition_node E s a) \<subseteq> {Instance C}
        \<and> set (get_runtime_terms_of_definition_node E s b) \<subseteq> {Instance C}
      \<longrightarrow> set (get_runtime_terms_of_definition_node E
             (handle_local_syntax_directed_typing_constraints_callback ord E (Assign i [a, b] f) ss s) a)
            = {Instance C}
        \<and> set (get_runtime_terms_of_definition_node E
             (handle_local_syntax_directed_typing_constraints_callback ord E (Assign i [a, b] f) ss s) b)
            = {Instance C})"
proof (intro conjI)
  show "handle_local_syntax_directed_typing_constraints_callback ord E (Assign i [] v) ss s = s"
    by simp
  show "handle_local_syntax_directed_typing_constraints_callback ord E (Assign i (ts @ [t]) v) ss s =
       handle_local_syntax_directed_typing_constraints_callback ord E (Assign i ts t) ss
         (transfer E s (v, t))"
    by simp
  show "set (get_runtime_terms (transfer E s (v, t)) m) =
       (if m = definition_node E t
        then set (get_runtime_terms s m) \<union> set (get_runtime_terms_of_definition_node E s v)
        else set (get_runtime_terms s m))"
    by (simp add: set_get_transfer get_runtime_terms_of_definition_node_def)
  show "\<forall>t' \<in> set ts. set (get_runtime_terms_of_definition_node E s v) \<subseteq>
         set (get_runtime_terms_of_definition_node E
           (handle_local_syntax_directed_typing_constraints_callback ord E (Assign i ts v) ss s) t')"
    using assign_value_reaches [of _ ts s E v]
    by (simp add: get_runtime_terms_of_definition_node_def)
  show "set (get_runtime_terms_of_definition_node E s f) = {Instance C}
        \<and> set (get_runtime_terms_of_definition_node E s a) \<subseteq> {Instance C}
        \<and> set (get_runtime_terms_of_definition_node E s b) \<subseteq> {Instance C}
      \<longrightarrow> set (get_runtime_terms_of_definition_node E
             (handle_local_syntax_directed_typing_constraints_callback ord E (Assign i [a, b] f) ss s) a)
            = {Instance C}
        \<and> set (get_runtime_terms_of_definition_node E
             (handle_local_syntax_directed_typing_constraints_callback ord E (Assign i [a, b] f) ss s) b)
            = {Instance C}"
    by (auto simp: get_runtime_terms_of_definition_node_def set_get_transfer)
qed

text \<open>
  \<^verbatim>\<open>a = b = f()\<close> with nodes 10, 11 and 12.
\<close>

theorem assignment_transfer_witness:
  "set (get_runtime_terms_of_definition_node example_env
      (handle_local_syntax_directed_typing_constraints_callback remdups example_env
         (Assign 13 [10, 11] 12) [ScopeModule] instance_state) 10) = {Instance (PyClass ''m'' ''C'')}
   \<and> set (get_runtime_terms_of_definition_node example_env
      (handle_local_syntax_directed_typing_constraints_callback remdups example_env
         (Assign 13 [10, 11] 12) [ScopeModule] instance_state) 11) = {Instance (PyClass ''m'' ''C'')}"
proof -
  have h: "set (get_runtime_terms_of_definition_node example_env instance_state 12)
        = {Instance (PyClass ''m'' ''C'')}
      \<and> set (get_runtime_terms_of_definition_node example_env instance_state 10)
        \<subseteq> {Instance (PyClass ''m'' ''C'')}
      \<and> set (get_runtime_terms_of_definition_node example_env instance_state 11)
        \<subseteq> {Instance (PyClass ''m'' ''C'')}"
    by (simp add: engine_defs example_defs)
  show ?thesis
    by (rule assignment_transfer [where E = example_env and s = instance_state and f = 12
          and a = 10 and b = 11 and C = "PyClass ''m'' ''C''" and ord = remdups
          and ss = "[ScopeModule]" and i = 13,
          THEN conjunct2, THEN conjunct2, THEN conjunct2, THEN conjunct2, THEN mp, OF h])
qed

text \<open>
  C5. For the call \<^verbatim>\<open>foo(1)\<close> in the function \<^verbatim>\<open>bar\<close>, \<open>foo\<close> resolved to its definition
  and the definition mapped to its runtime function, the call branch prints exactly one
  record: the function's module, \<open>global\<close>, the function's name, its source start line and
  end line (start plus number of source lines minus one), the caller's module, \<open>bar\<close>, the
  line of the call, the start and end line of \<open>bar\<close>, and the signature.
\<close>

theorem call_emission:
  assumes "is_iteration_order ord"
    and "set (get_runtime_terms_of_definition_node E s func) = {Function (FunctionDefinition foo)}"
    and "named_function_definitions_to_unwrapped_runtime_functions E foo = Some f"
    and "fn_module f \<noteq> []" and "fn_name f \<noteq> []"
    and "ss = outer @ [ScopeFunctionDef bar l e]"
  shows "stdout (handle_local_syntax_directed_typing_constraints_callback ord E (Call i func lineno) ss s)
         = stdout s @
           [\<lparr>callee_module = fn_module f, callee_class = ''global'',
             callee_function_name = fn_name f,
             start_line = fn_start_line f,
             end_line = fn_start_line f + int (length (fn_source_lines f)) - 1,
             caller_module = current_module_name E,
             caller_function_name = Some bar,
             call_line = lineno,
             caller_function_start = Some l,
             caller_function_end = Some e,
             signature = fn_signature f\<rparr>]"
proof -
  have "ord (get_runtime_terms_of_definition_node E s func) = [Function (FunctionDefinition foo)]"
    by (rule singleton_order [OF assms(1,2)])
  then show ?thesis
    using assms(3-6)
    by (simp add: call_loop_single call_iteration_def set_callee_def print_call_site_def
        record_of_def caller_of_def)
qed

text \<open>
  The example module from an empty state: one record, printed as one line with the signature
  in double quotes.
\<close>

theorem call_emission_witness:
  "stdout (modified_handle_local_syntax_directed_typing_constraints remdups example_env
      example_visits no_terms) =
     [\<lparr>callee_module = ''m'', callee_class = ''global'', callee_function_name = ''foo'',
       start_line = 1, end_line = 1, caller_module = ''m'', caller_function_name = Some ''bar'',
       call_line = Some 6, caller_function_start = Some 5, caller_function_end = Some 6,
       signature = ''(x)''\<rparr>]
   \<and> map print_line (stdout (modified_handle_local_syntax_directed_typing_constraints remdups
        example_env example_visits no_terms)) =
     [''m,global,foo,1,1,m,bar,6,5,6,'' @ [CHR 0x22] @ ''(x)'' @ [CHR 0x22]]"
proof -
  let ?s = "modified_handle_local_syntax_directed_typing_constraints remdups example_env
      (butlast example_visits) no_terms"
  have o: "is_iteration_order remdups" by (simp add: is_iteration_order_def)
  have t: "set (get_runtime_terms_of_definition_node example_env ?s 3) =
      {Function (FunctionDefinition 1)}"
    by (simp add: modified_handle_local_syntax_directed_typing_constraints_def example_visits_def
        example_env_def no_terms_def get_runtime_terms_of_definition_node_def definition_node_def
        get_runtime_terms_def update_runtime_terms_def
        update_runtime_terms_of_definition_node_def
        update_runtime_terms_of_definition_node_from_runtime_class_def List.union_def
        List.insert_def)
  have out: "stdout ?s = []"
    by (simp add: modified_handle_local_syntax_directed_typing_constraints_def example_visits_def
        no_terms_def update_runtime_terms_def
        update_runtime_terms_of_definition_node_def
        update_runtime_terms_of_definition_node_from_runtime_class_def)
  have n: "named_function_definitions_to_unwrapped_runtime_functions example_env 1 = Some foo_fn"
    by (simp add: example_env_def)
  have split: "modified_handle_local_syntax_directed_typing_constraints remdups example_env
      example_visits no_terms =
      handle_local_syntax_directed_typing_constraints_callback remdups example_env
        (Call 5 3 (Some 6)) bar_scope ?s"
    by (simp add: modified_handle_local_syntax_directed_typing_constraints_def example_visits_def)
  have digits: "str_int 1 = ''1''" "str_int 5 = ''5''" "str_int 6 = ''6''"
    by (simp_all add: str_int_def str_nat.simps)
  have m: "fn_module foo_fn \<noteq> []" and nm: "fn_name foo_fn \<noteq> []"
    by (simp_all add: foo_fn_def)
  have sc: "bar_scope = [ScopeModule] @ [ScopeFunctionDef ''bar'' 5 6]"
    by (simp add: bar_scope_def)
  have cur: "current_module_name example_env = ''m''" by (simp add: example_env_def)
  note r = call_emission [OF o t n m nm sc, of 5 "Some 6"]
  show ?thesis
    unfolding split r
    by (simp add: out cur foo_fn_def print_line_def digits)
qed

text \<open>
  C6. For a class in the callee's term set (with a non-empty module name, name and constructor
  name), the call node's own term set gains the instance of that class in every case; the
  record naming the class and its constructor is printed if the unwrapped constructor is in
  the mapping from runtime functions to definitions; when the class is the only candidate the
  call prints that record if the constructor is in the mapping and nothing otherwise; in
  general the set of printed records is the union of the candidates' own records, and the
  class's own record exists exactly when its constructor is in the mapping.
\<close>

theorem class_call:
  assumes "is_iteration_order ord"
    and "RuntimeClass cls \<in> set (get_runtime_terms_of_definition_node E s func)"
    and "cls_module cls \<noteq> []" and "cls_name cls \<noteq> []"
    and "fn_name (get_unwrapped_constructor E cls) \<noteq> []"
  shows "Instance cls \<in> set (get_runtime_terms_of_definition_node E
           (handle_local_syntax_directed_typing_constraints_callback ord E (Call i func lineno) ss s) i)
       \<and> (is_known E (get_unwrapped_constructor E cls) \<longrightarrow>
            record_of (caller_of E lineno ss) (cls_module cls) (cls_name cls)
              (fn_name (get_unwrapped_constructor E cls)) (get_unwrapped_constructor E cls)
            \<in> set (stdout
                (handle_local_syntax_directed_typing_constraints_callback ord E (Call i func lineno) ss s)))
       \<and> (set (get_runtime_terms_of_definition_node E s func) = {RuntimeClass cls} \<longrightarrow>
            stdout (handle_local_syntax_directed_typing_constraints_callback ord E (Call i func lineno) ss s)
            = stdout s @
              (if is_known E (get_unwrapped_constructor E cls)
               then [record_of (caller_of E lineno ss) (cls_module cls) (cls_name cls)
                       (fn_name (get_unwrapped_constructor E cls)) (get_unwrapped_constructor E cls)]
               else []))
       \<and> set (stdout
              (handle_local_syntax_directed_typing_constraints_callback ord E (Call i func lineno) ss s))
         = set (stdout s) \<union>
           (\<Union>t \<in> set (get_runtime_terms_of_definition_node E s func).
              set (own_record E (caller_of E lineno ss) t))
       \<and> own_record E (caller_of E lineno ss) (RuntimeClass cls)
         = (if is_known E (get_unwrapped_constructor E cls)
            then [record_of (caller_of E lineno ss) (cls_module cls) (cls_name cls)
                    (fn_name (get_unwrapped_constructor E cls)) (get_unwrapped_constructor E cls)]
            else [])"
proof (intro conjI impI)
  show "set (stdout
              (handle_local_syntax_directed_typing_constraints_callback ord E (Call i func lineno) ss s))
         = set (stdout s) \<union>
           (\<Union>t \<in> set (get_runtime_terms_of_definition_node E s func).
              set (own_record E (caller_of E lineno ss) t))"
    using assms(1) by (simp add: set_stdout_call_loop is_iteration_order_def)
  show "own_record E (caller_of E lineno ss) (RuntimeClass cls)
         = (if is_known E (get_unwrapped_constructor E cls)
            then [record_of (caller_of E lineno ss) (cls_module cls) (cls_name cls)
                    (fn_name (get_unwrapped_constructor E cls)) (get_unwrapped_constructor E cls)]
            else [])"
    using assms(3-5) by (simp add: own_record_RuntimeClass)
  have mem: "RuntimeClass cls \<in> set (ord (get_runtime_terms_of_definition_node E s func))"
    using assms(1,2) by (simp add: is_iteration_order_def)
  show "Instance cls \<in> set (get_runtime_terms_of_definition_node E
           (handle_local_syntax_directed_typing_constraints_callback ord E (Call i func lineno) ss s) i)"
    using mem
    by (auto simp: get_runtime_terms_of_definition_node_def set_get_call_loop class_instances_def)
  show "record_of (caller_of E lineno ss) (cls_module cls) (cls_name cls)
              (fn_name (get_unwrapped_constructor E cls)) (get_unwrapped_constructor E cls)
            \<in> set (stdout
                (handle_local_syntax_directed_typing_constraints_callback ord E (Call i func lineno) ss s))"
    if "is_known E (get_unwrapped_constructor E cls)"
  proof -
    have "record_of (caller_of E lineno ss) (cls_module cls) (cls_name cls)
              (fn_name (get_unwrapped_constructor E cls)) (get_unwrapped_constructor E cls)
          \<in> set (own_record E (caller_of E lineno ss) (RuntimeClass cls))"
      using that assms(3-5) by (simp add: own_record_RuntimeClass)
    with mem show ?thesis
      by (auto simp: set_stdout_call_loop)
  qed
  show "stdout (handle_local_syntax_directed_typing_constraints_callback ord E (Call i func lineno) ss s)
            = stdout s @
              (if is_known E (get_unwrapped_constructor E cls)
               then [record_of (caller_of E lineno ss) (cls_module cls) (cls_name cls)
                       (fn_name (get_unwrapped_constructor E cls)) (get_unwrapped_constructor E cls)]
               else [])"
    if "set (get_runtime_terms_of_definition_node E s func) = {RuntimeClass cls}"
  proof -
    have "ord (get_runtime_terms_of_definition_node E s func) = [RuntimeClass cls]"
      by (rule singleton_order [OF assms(1) that])
    then show ?thesis
      using assms(3-5)
      by (simp add: call_loop_single call_iteration_def Let_def set_callee_def print_call_site_def
          initial_call_vars_def)
  qed
qed

text \<open>
  \<^verbatim>\<open>K()\<close> at module level, \<open>K\<close> a class of the example module whose \<^verbatim>\<open>__init__\<close> is mapped.
\<close>

theorem class_call_witness:
  "Instance (PyClass ''m'' ''K'') \<in> set (get_runtime_terms_of_definition_node example_env
      (handle_local_syntax_directed_typing_constraints_callback remdups example_env
         (Call 8 7 (Some 9)) [ScopeModule] class_state) 8)
   \<and> stdout (handle_local_syntax_directed_typing_constraints_callback remdups example_env
         (Call 8 7 (Some 9)) [ScopeModule] class_state) =
       [\<lparr>callee_module = ''m'', callee_class = ''K'', callee_function_name = ''__init__'',
         start_line = 4, end_line = 4, caller_module = ''m'', caller_function_name = None,
         call_line = Some 9, caller_function_start = None, caller_function_end = None,
         signature = ''(self)''\<rparr>]"
proof -
  let ?K = "PyClass ''m'' ''K''"
  have t: "set (get_runtime_terms_of_definition_node example_env class_state 7) = {RuntimeClass ?K}"
    by (simp add: engine_defs example_defs)
  then have mem: "RuntimeClass ?K \<in> set (get_runtime_terms_of_definition_node example_env class_state 7)"
    by simp
  have names: "cls_module ?K \<noteq> []" "cls_name ?K \<noteq> []"
    "fn_name (get_unwrapped_constructor example_env ?K) \<noteq> []"
    by (simp_all add: example_env_def K_init_def)
  have known: "is_known example_env (get_unwrapped_constructor example_env ?K)"
    by (simp add: is_known_def example_env_def K_init_def foo_fn_def)
  note c = class_call [OF is_iteration_order_remdups mem names, of 8 "Some 9" "[ScopeModule]"]
  have "stdout (handle_local_syntax_directed_typing_constraints_callback remdups example_env
         (Call 8 7 (Some 9)) [ScopeModule] class_state) =
       stdout class_state @
         [record_of (caller_of example_env (Some 9) [ScopeModule]) (cls_module ?K) (cls_name ?K)
            (fn_name (get_unwrapped_constructor example_env ?K))
            (get_unwrapped_constructor example_env ?K)]"
    using c [THEN conjunct2, THEN conjunct2, THEN conjunct1, THEN mp, OF t] known by simp
  then have "stdout (handle_local_syntax_directed_typing_constraints_callback remdups example_env
         (Call 8 7 (Some 9)) [ScopeModule] class_state) =
       [\<lparr>callee_module = ''m'', callee_class = ''K'', callee_function_name = ''__init__'',
         start_line = 4, end_line = 4, caller_module = ''m'', caller_function_name = None,
         call_line = Some 9, caller_function_start = None, caller_function_end = None,
         signature = ''(self)''\<rparr>]"
    by (simp add: record_of_def caller_of_def example_env_def K_init_def class_state_def)
  with c [THEN conjunct1] show ?thesis by blast
qed

text \<open>
  C7, as amended. An exception that \<^verbatim>\<open>except (ImportError, UnicodeError)\<close> catches, raised
  while a module of the table is read, parsed or imported, is logged, the module is left out
  of the tables and the import loop goes on: when every failure is of these classes the loop
  ends normally with exactly the modules that loaded, in the order of the table, and the
  names of the others logged. An exception of any other class raised there is not caught and
  ends the loop at that module, and an exception raised while a module is handled ends the
  loop over the modules: that loop has no handler.
\<close>

theorem import_fault_isolation:
  "(distinct (map fst table)
     \<and> (\<forall>(name, file_path) \<in> set table. \<not> skipped file_path \<longrightarrow>
           (case try_import P I name file_path of Inl e \<Rightarrow> caught e | Inr r \<Rightarrow> True))
    \<longrightarrow> (\<exists>st. import_modules P I table no_modules = Inr st
          \<and> module_name_to_module_node st = loaded_nodes P I table
          \<and> logged st = failed_names P I table))
   \<and> (\<not> skipped file_path \<and> try_import P I name file_path = Inl e \<and> \<not> caught e
        \<longrightarrow> import_modules P I ((name, file_path) # rest) st = Inl e)
   \<and> (body name module_node s = Inl e
        \<longrightarrow> handle_modules body ((name, module_node) # modules) s = Inl e)
   \<and> (caught e \<longleftrightarrow> e \<in> {ImportError, ModuleNotFoundError, UnicodeError, UnicodeDecodeError,
                         UnicodeEncodeError})"
proof (intro conjI impI)
  assume a: "distinct (map fst table)
     \<and> (\<forall>(name, file_path) \<in> set table. \<not> skipped file_path \<longrightarrow>
           (case try_import P I name file_path of Inl e \<Rightarrow> caught e | Inr r \<Rightarrow> True))"
  have "fst ` set (module_name_to_module_node (no_modules :: ('a, 'b) imported)) \<inter> fst ` set table = {}"
    by (simp add: no_modules_def)
  from import_modules_caught [OF conjunct1 [OF a] this conjunct2 [OF a]]
  show "\<exists>st. import_modules P I table no_modules = Inr st
          \<and> module_name_to_module_node st = loaded_nodes P I table
          \<and> logged st = failed_names P I table"
    by (simp add: no_modules_def)
next
  show "caught e \<longleftrightarrow> e \<in> {ImportError, ModuleNotFoundError, UnicodeError, UnicodeDecodeError,
                         UnicodeEncodeError}"
    by (cases e) simp_all
qed simp_all

text \<open>
  A table with a module whose import raises \<^verbatim>\<open>ImportError\<close>, a module that loads and a
  \<^verbatim>\<open>setup.py\<close>.
\<close>

theorem import_fault_isolation_witness:
  "import_modules example_parse example_import
      [(''c'', ''c.py''), (''b'', ''b.py''), (''s'', ''setup.py'')] no_modules =
     Inr \<lparr>module_name_to_module_node = [(''b'', ''b.py'')],
          module_name_to_module = [(''b'', ''b'')], logged = [''c'']\<rparr>
   \<and> loaded_nodes example_parse example_import
      [(''c'', ''c.py''), (''b'', ''b.py''), (''s'', ''setup.py'')] = [(''b'', ''b.py'')]
   \<and> failed_names example_parse example_import
      [(''c'', ''c.py''), (''b'', ''b.py''), (''s'', ''setup.py'')] = [''c'']"
proof -
  let ?table = "[(''c'', ''c.py''), (''b'', ''b.py''), (''s'', ''setup.py'')]"
  have h: "distinct (map fst ?table)
     \<and> (\<forall>(name, file_path) \<in> set ?table. \<not> skipped file_path \<longrightarrow>
           (case try_import example_parse example_import name file_path of
              Inl e \<Rightarrow> caught e | Inr r \<Rightarrow> True))"
    by (simp add: skipped_def endswith_def try_import_def example_parse_def example_import_def)
  from import_fault_isolation [where table = ?table and P = example_parse and I = example_import,
      THEN conjunct1, THEN mp, OF h]
  obtain st where "import_modules example_parse example_import ?table no_modules = Inr st"
    and "module_name_to_module_node st = loaded_nodes example_parse example_import ?table"
    and "logged st = failed_names example_parse example_import ?table"
    by blast
  then show ?thesis
    by (simp add: skipped_def endswith_def try_import_def example_parse_def example_import_def
        no_modules_def loaded_nodes_def failed_names_def List.map_filter_def)
qed

text \<open>
  C7 as stated fails: the import of module \<open>a\<close> raises \<^verbatim>\<open>AttributeError\<close>, which the
  \<^verbatim>\<open>except\<close> clause does not catch; the run ends with that exception and module \<open>b\<close> is
  neither imported nor analysed.
\<close>

theorem uncaught_import_exception:
  "main remdups example_parse example_import example_prepare
     [(''a'', ''a.py''), (''b'', ''b.py'')] = Inl AttributeError"
  by (simp add: main_def skipped_def endswith_def try_import_def example_parse_def
      example_import_def no_modules_def)

text \<open>
  C8. An update is a set union on the node's term set and leaves every other node's set as it
  is; the callback on any node, and the whole pass over a module, leave every node with a
  superset of the terms it had; a node that was never updated reads as the empty set.
  Reading is a function of the state and returns no state: it changes nothing.
\<close>

theorem runtime_terms_only_grow:
  "set (get_runtime_terms (update_runtime_terms n ts s) n) = set (get_runtime_terms s n) \<union> set ts
   \<and> (m \<noteq> n \<longrightarrow> get_runtime_terms (update_runtime_terms n ts s) m = get_runtime_terms s m)
   \<and> set (get_runtime_terms s m)
       \<subseteq> set (get_runtime_terms (handle_local_syntax_directed_typing_constraints_callback ord E nd ss s) m)
   \<and> set (get_runtime_terms s m)
       \<subseteq> set (get_runtime_terms (modified_handle_local_syntax_directed_typing_constraints ord E visits s) m)
   \<and> (node_runtime_terms s m = None \<longrightarrow> get_runtime_terms s m = [])"
proof (intro conjI impI)
  show "node_runtime_terms s m = None \<Longrightarrow> get_runtime_terms s m = []"
    by (simp add: get_runtime_terms_def)
  show "set (get_runtime_terms (update_runtime_terms n ts s) n) = set (get_runtime_terms s n) \<union> set ts"
    by (simp add: set_get_update_runtime_terms)
qed (simp_all add: get_update_runtime_terms callback_grows pass_grows)

text \<open>
  Adding \<open>Instance(K)\<close> to a node holding two terms.
\<close>

theorem runtime_terms_only_grow_witness:
  "set (get_runtime_terms (update_runtime_terms 7 [Instance (PyClass ''m'' ''K'')] ambiguous_state) 7)
     = {Function (FunctionDefinition 1), Instance (PyClass ''m'' ''C''), Instance (PyClass ''m'' ''K'')}
   \<and> get_runtime_terms (update_runtime_terms 7 [Instance (PyClass ''m'' ''K'')] ambiguous_state) 12
     = get_runtime_terms ambiguous_state 12
   \<and> get_runtime_terms ambiguous_state 12 = []"
proof -
  have ne: "(12::nat) \<noteq> 7" by simp
  have none: "node_runtime_terms ambiguous_state 12 = None"
    by (simp add: ambiguous_state_def)
  note g = runtime_terms_only_grow [of 7 "[Instance (PyClass ''m'' ''K'')]" ambiguous_state 12]
  have "set (get_runtime_terms ambiguous_state 7)
      = {Function (FunctionDefinition 1), Instance (PyClass ''m'' ''C'')}"
    by (simp add: get_runtime_terms_def ambiguous_state_def)
  with g [THEN conjunct1]
  have "set (get_runtime_terms (update_runtime_terms 7 [Instance (PyClass ''m'' ''K'')] ambiguous_state) 7)
     = {Function (FunctionDefinition 1), Instance (PyClass ''m'' ''C''), Instance (PyClass ''m'' ''K'')}"
    by auto
  with g [THEN conjunct2, THEN conjunct1, THEN mp, OF ne]
    g [THEN conjunct2, THEN conjunct2, THEN conjunct2, THEN conjunct2, THEN mp, OF none]
  show ?thesis by blast
qed

text \<open>
  C9. Every record that a call prints takes the caller from the last entry of the scope stack
  alone: the caller's name is that scope's \<^verbatim>\<open>name\<close> or \<^verbatim>\<open>None\<close>, the caller's lines are that
  scope's line span, and the scopes further out make no difference. A lambda or a comprehension
  has no name and has its own lines; a module has no name, and an empty stack gives
  \<^verbatim>\<open>None\<close> throughout.
\<close>

theorem caller_attribution:
  "(\<exists>new. stdout (handle_local_syntax_directed_typing_constraints_callback ord E (Call i func lineno) ss s)
            = stdout s @ new
      \<and> (\<forall>r \<in> set new.
            caller_module r = current_module_name E \<and> call_line r = lineno
            \<and> caller_function_name r = (if ss = [] then None else getattr_name (last ss))
            \<and> caller_function_start r = (if ss = [] then None else getattr_lineno (last ss))
            \<and> caller_function_end r = (if ss = [] then None else getattr_end_lineno (last ss))))
   \<and> handle_local_syntax_directed_typing_constraints_callback ord E (Call i func lineno) (outer @ [inner]) s
     = handle_local_syntax_directed_typing_constraints_callback ord E (Call i func lineno) [inner] s
   \<and> getattr_name (ScopeLambda l e) = None \<and> getattr_lineno (ScopeLambda l e) = Some l
   \<and> getattr_end_lineno (ScopeLambda l e) = Some e
   \<and> getattr_name (ScopeComprehension l e) = None \<and> getattr_lineno (ScopeComprehension l e) = Some l
   \<and> getattr_end_lineno (ScopeComprehension l e) = Some e
   \<and> getattr_name ScopeModule = None"
proof -
  let ?c = "caller_of E lineno ss"
  from stdout_foldl_call_iteration_caller [of E i ?c "(initial_call_vars, s)"
      "ord (get_runtime_terms_of_definition_node E s func)"]
  obtain new where
    out: "stdout (snd (foldl (call_iteration E i ?c) (initial_call_vars, s)
            (ord (get_runtime_terms_of_definition_node E s func)))) = stdout s @ new"
    and all: "\<forall>r \<in> set new.
          caller_module r = caller_module_name ?c \<and> caller_function_name r = caller_function_name_var ?c
          \<and> call_line r = call_line_var ?c \<and> caller_function_start r = caller_function_start_var ?c
          \<and> caller_function_end r = caller_function_end_var ?c"
    by auto
  have sel: "caller_module_name ?c = current_module_name E" "call_line_var ?c = lineno"
    "caller_function_name_var ?c = (if ss = [] then None else getattr_name (last ss))"
    "caller_function_start_var ?c = (if ss = [] then None else getattr_lineno (last ss))"
    "caller_function_end_var ?c = (if ss = [] then None else getattr_end_lineno (last ss))"
    by (simp_all add: caller_of_def)
  have "stdout (handle_local_syntax_directed_typing_constraints_callback ord E (Call i func lineno) ss s)
      = stdout s @ new"
    using out by (simp add: call_loop_def)
  moreover have "\<forall>r \<in> set new.
            caller_module r = current_module_name E \<and> call_line r = lineno
            \<and> caller_function_name r = (if ss = [] then None else getattr_name (last ss))
            \<and> caller_function_start r = (if ss = [] then None else getattr_lineno (last ss))
            \<and> caller_function_end r = (if ss = [] then None else getattr_end_lineno (last ss))"
    using all unfolding sel by blast
  ultimately have "\<exists>new. stdout (handle_local_syntax_directed_typing_constraints_callback ord E (Call i func lineno) ss s)
            = stdout s @ new
      \<and> (\<forall>r \<in> set new.
            caller_module r = current_module_name E \<and> call_line r = lineno
            \<and> caller_function_name r = (if ss = [] then None else getattr_name (last ss))
            \<and> caller_function_start r = (if ss = [] then None else getattr_lineno (last ss))
            \<and> caller_function_end r = (if ss = [] then None else getattr_end_lineno (last ss)))"
    by blast
  moreover have "handle_local_syntax_directed_typing_constraints_callback ord E (Call i func lineno) (outer @ [inner]) s
     = handle_local_syntax_directed_typing_constraints_callback ord E (Call i func lineno) [inner] s"
    by (simp add: caller_of_def)
  ultimately show ?thesis by simp
qed

text \<open>
  The call of C1 inside a lambda on line 9 of \<^verbatim>\<open>baz\<close>: the records name no caller function
  and carry the lambda's lines.
\<close>

theorem caller_attribution_witness:
  "stdout (handle_local_syntax_directed_typing_constraints_callback remdups example_env
      (Call 8 7 (Some 9)) lambda_scope ambiguous_state) =
     [\<lparr>callee_module = ''m'', callee_class = ''global'', callee_function_name = ''foo'',
       start_line = 1, end_line = 1, caller_module = ''m'', caller_function_name = None,
       call_line = Some 9, caller_function_start = Some 9, caller_function_end = Some 9,
       signature = ''(x)''\<rparr>,
      \<lparr>callee_module = ''m'', callee_class = ''global'', callee_function_name = ''foo'',
       start_line = 1, end_line = 1, caller_module = ''m'', caller_function_name = None,
       call_line = Some 9, caller_function_start = Some 9, caller_function_end = Some 9,
       signature = ''(x)''\<rparr>]
   \<and> handle_local_syntax_directed_typing_constraints_callback remdups example_env
      (Call 8 7 (Some 9)) lambda_scope ambiguous_state
     = handle_local_syntax_directed_typing_constraints_callback remdups example_env
      (Call 8 7 (Some 9)) [ScopeLambda 9 9] ambiguous_state"
proof -
  have sc: "lambda_scope = [ScopeModule, ScopeFunctionDef ''baz'' 7 9] @ [ScopeLambda 9 9]"
    by (simp add: lambda_scope_def)
  note a = caller_attribution [of remdups example_env 8 7 "Some 9" lambda_scope ambiguous_state
      "[ScopeModule, ScopeFunctionDef ''baz'' 7 9]" "ScopeLambda 9 9", folded sc]
  have "stdout (handle_local_syntax_directed_typing_constraints_callback remdups example_env
      (Call 8 7 (Some 9)) lambda_scope ambiguous_state) =
     [\<lparr>callee_module = ''m'', callee_class = ''global'', callee_function_name = ''foo'',
       start_line = 1, end_line = 1, caller_module = ''m'', caller_function_name = None,
       call_line = Some 9, caller_function_start = Some 9, caller_function_end = Some 9,
       signature = ''(x)''\<rparr>,
      \<lparr>callee_module = ''m'', callee_class = ''global'', callee_function_name = ''foo'',
       start_line = 1, end_line = 1, caller_module = ''m'', caller_function_name = None,
       call_line = Some 9, caller_function_start = Some 9, caller_function_end = Some 9,
       signature = ''(x)''\<rparr>]"
    by (simp add: engine_defs example_defs)
  with a [THEN conjunct2, THEN conjunct1] show ?thesis by blast
qed

text \<open>
  C10. An annotated assignment without a value leaves the state as it is. With a value, the
  resulting state does not depend on the annotation; the target's definition node gains the
  value's terms and every other node keeps its set; nothing is printed.
\<close>

theorem annotated_assignment_frame:
  "handle_local_syntax_directed_typing_constraints_callback ord E (AnnAssign i target annotation None) ss s = s
   \<and> handle_local_syntax_directed_typing_constraints_callback ord E (AnnAssign i target annotation val) ss s
     = handle_local_syntax_directed_typing_constraints_callback ord E (AnnAssign i target annotation' val) ss s
   \<and> set (get_runtime_terms
          (handle_local_syntax_directed_typing_constraints_callback ord E
             (AnnAssign i target annotation (Some v)) ss s) m)
     = (if m = definition_node E target
        then set (get_runtime_terms s m) \<union> set (get_runtime_terms_of_definition_node E s v)
        else set (get_runtime_terms s m))
   \<and> stdout (handle_local_syntax_directed_typing_constraints_callback ord E
             (AnnAssign i target annotation val) ss s) = stdout s"
  by (cases val) (simp_all add: set_get_transfer get_runtime_terms_of_definition_node_def)

text \<open>
  \<^verbatim>\<open>x: int\<close> and \<^verbatim>\<open>x: int = C()\<close>, the annotation being node 14.
\<close>

theorem annotated_assignment_frame_witness:
  "handle_local_syntax_directed_typing_constraints_callback remdups example_env
      (AnnAssign 13 10 14 None) [ScopeModule] instance_state = instance_state
   \<and> set (get_runtime_terms
          (handle_local_syntax_directed_typing_constraints_callback remdups example_env
             (AnnAssign 13 10 14 (Some 12)) [ScopeModule] instance_state) 10)
     = {Instance (PyClass ''m'' ''C'')}
   \<and> set (get_runtime_terms
          (handle_local_syntax_directed_typing_constraints_callback remdups example_env
             (AnnAssign 13 10 14 (Some 12)) [ScopeModule] instance_state) 14) = {}"
proof -
  note f = annotated_assignment_frame [where ord = remdups and E = example_env and i = 13
      and target = 10 and annotation = 14 and ss = "[ScopeModule]" and s = instance_state and v = 12]
  have d: "definition_node example_env 10 = 10" "definition_node example_env 12 = 12"
    by (simp_all add: definition_node_def example_env_def)
  have g: "get_runtime_terms instance_state 10 = []" "get_runtime_terms instance_state 14 = []"
    "get_runtime_terms instance_state 12 = [Instance (PyClass ''m'' ''C'')]"
    by (simp_all add: get_runtime_terms_def instance_state_def)
  from f [THEN conjunct1] f [THEN conjunct2, THEN conjunct2, THEN conjunct1, of 10]
    f [THEN conjunct2, THEN conjunct2, THEN conjunct1, of 14]
  show ?thesis
    by (simp add: d g get_runtime_terms_of_definition_node_def)
qed

end
